theory Spec2Isabelle
  imports Main "HOL-Library.Multiset"
begin

section \<open>Python values used by the program\<close>

text \<open>
  Text is \<^typ>\<open>string\<close>; a character stands for one code point of a Python \<open>str\<close>
  (code points below 256). Exceptions are values of \<open>error\<close>; a computation that can
  raise returns \<open>error + 'a\<close> with \<open>Inl\<close> for the exception. Three of them are
  \<open>ValueError\<close> in Python: \<open>ValueError s\<close>, raised by \<open>int\<close> on the text \<open>s\<close>;
  \<open>DigitLimit\<close>, raised when an integer of more than 4300 digits is turned into text;
  \<open>LineTooLong\<close>, raised by the stream reader on a line beyond its limit. \<open>OSError\<close>
  carries the path that could not be written. \<open>Exception prefix e\<close> is a plain
  \<open>Exception\<close> whose message is \<open>prefix\<close> followed by the message of the exception
  \<open>e\<close>.
\<close>

datatype error =
    UnicodeDecodeError
  | UnicodeEncodeError
  | ParseError
  | ValueError string
  | DigitLimit
  | LineTooLong
  | OSError string
  | Exception string error

text \<open>\<open>str.isspace\<close> on one character: the white-space code points below 256.\<close>

definition py_isspace :: "char \<Rightarrow> bool" where
  "py_isspace c = ((of_char c :: nat) \<in> {9, 10, 11, 12, 13, 28, 29, 30, 31, 32, 133, 160})"

text \<open>\<open>str.strip()\<close>: drops leading and trailing white space.\<close>

definition str_strip :: "string \<Rightarrow> string" where
  "str_strip s = rev (dropWhile py_isspace (rev (dropWhile py_isspace s)))"

text \<open>\<open>s.startswith(p)\<close>.\<close>

definition startswith :: "string \<Rightarrow> string \<Rightarrow> bool" where
  "startswith s p = (take (length p) s = p)"

text \<open>
  The decimal digits of a natural number, as \<open>str\<close> gives them for a count or a length
  (the number of elements of a list in memory, far below the 4300 digits where \<open>str\<close>
  raises), and \<open>str\<close> of the exit status of a process.
\<close>

definition digit_char :: "nat \<Rightarrow> char" where
  "digit_char d = char_of (48 + d)"

function str_nat :: "nat \<Rightarrow> string" where
  "str_nat n = (if n < 10 then [digit_char n] else str_nat (n div 10) @ [digit_char (n mod 10)])"
  by pat_completeness auto
termination
  by (relation "measure id") auto

declare str_nat.simps [simp del]

definition str_int :: "int \<Rightarrow> string" where
  "str_int i = (if i < 0 then CHR ''-'' # str_nat (nat (- i)) else str_nat (nat i))"

text \<open>
  \<open>str(i)\<close> of an integer read from data: the interpreter refuses to write out more than
  4300 digits.
\<close>

definition py_str :: "int \<Rightarrow> error + string" where
  "py_str i =
     (let digits = str_nat (nat \<bar>i\<bar>)
      in if 4300 < int (length digits) then Inl DigitLimit
         else Inr (if i < 0 then CHR ''-'' # digits else digits))"

section \<open>The stream classifier (core/logs.py)\<close>

text \<open>
  The state of the loop in \<open>scripts_stream_process\<close>: what has been written to the log
  widget, the names collected so far, and the previous line.
\<close>

record classifier =
  written :: "string list"
  script_names :: "string list"
  last_line :: string

text \<open>
  One iteration of the loop body on the text of one output line, already decoded:
  strip it, write it to the log, collect the previous line when the pattern matches,
  remember the line.
\<close>

definition classify_line :: "string \<Rightarrow> classifier \<Rightarrow> classifier" where
  "classify_line decoded st =
     (let line = str_strip decoded;
          st1 = st\<lparr>written := written st @ [line]\<rparr>;
          st2 = (if last_line st1 \<noteq> [] \<and> startswith line ''Categories:''
                    \<and> length (script_names st1) \<le> 25
                 then st1\<lparr>script_names := script_names st1 @ [last_line st1]\<rparr>
                 else st1)
      in st2\<lparr>last_line := line\<rparr>)"

text \<open>
  A line of the process's output as the loop meets it: the number of bytes before its
  newline, and what \<open>raw_line.decode()\<close> gives for it (the text with its newline), \<open>None\<close>
  when the bytes are not valid UTF-8.
\<close>

record raw_line =
  line_bytes :: int
  line_text :: "string option"

text \<open>
  The stream is created without a \<open>limit\<close> argument, so the reader has its default
  limit of 64 KiB: asking it for a line with more bytes than that before the newline
  raises \<open>ValueError\<close>.
\<close>

definition reader_limit :: int where
  "reader_limit = 65536"

text \<open>
  The loop over the lines the process prints. A line beyond the limit makes the
  iteration raise, a line that does not decode makes \<open>decode\<close> raise; in both cases the
  loop is left with what it has written so far.
\<close>

fun stream_loop :: "raw_line list \<Rightarrow> classifier \<Rightarrow> classifier \<times> error option" where
  "stream_loop [] st = (st, None)"
| "stream_loop (raw # rest) st =
     (if reader_limit < line_bytes raw then (st, Some LineTooLong)
      else (case line_text raw of
              None \<Rightarrow> (st, Some UnicodeDecodeError)
            | Some decoded \<Rightarrow> stream_loop rest (classify_line decoded st)))"

text \<open>
  The line written once the process has ended, with its exit status (the status of a
  process is a small integer).
\<close>

definition finished_marker :: "int \<Rightarrow> string" where
  "finished_marker returncode = CHR 0x0A # ''Process finished with code '' @ str_int returncode"

text \<open>
  \<open>scripts_stream_process\<close> on a process that prints the lines \<open>stdout\<close> and exits with
  \<open>returncode\<close>, starting from the log content \<open>log\<close>: the new log content and the
  returned names (or the exception).
\<close>

definition scripts_stream_process ::
  "raw_line list \<Rightarrow> int \<Rightarrow> string list \<Rightarrow> string list \<times> (error + string list)" where
  "scripts_stream_process stdout returncode log =
     (case stream_loop stdout \<lparr>written = log, script_names = [], last_line = []\<rparr> of
        (st, Some e) \<Rightarrow> (written st, Inl e)
      | (st, None) \<Rightarrow>
          (written st @ [finished_marker returncode], Inr (script_names st)))"

text \<open>
  Test input: the line of the ASCII text \<open>s\<close>, followed by its newline; and \<open>n\<close> header
  pairs with the distinct names \<open>s0\<close>, \<open>s1\<close>, ...
\<close>

definition text_line :: "string \<Rightarrow> raw_line" where
  "text_line s = \<lparr>line_bytes = int (length s), line_text = Some (s @ [CHR 0x0A])\<rparr>"

definition header_pairs :: "nat \<Rightarrow> raw_line list" where
  "header_pairs n =
     concat (map (\<lambda>i. [text_line (CHR ''s'' # str_nat i), text_line ''Categories: safe''])
               [0..<n])"

definition header_names :: "nat \<Rightarrow> string list" where
  "header_names n = map (\<lambda>i. CHR ''s'' # str_nat i) [0..<n]"

section \<open>More of Python's strings and integers\<close>

text \<open>
  \<open>int(s)\<close> for a string, base 10: white space around the literal is skipped, then an
  optional sign, then digits, where a single underscore may stand between two digits.
  The white space of \<open>int\<close> is not that of \<open>strip\<close>: the control characters 28 to 31
  are refused. A literal of more than 4300 digits (leading zeros counted, underscores
  not) is refused as well. The exception carries the refused text.
\<close>

definition int_isspace :: "char \<Rightarrow> bool" where
  "int_isspace c = ((of_char c :: nat) \<in> {9, 10, 11, 12, 13, 32, 133, 160})"

definition is_digit :: "char \<Rightarrow> bool" where
  "is_digit c = (48 \<le> (of_char c :: nat) \<and> (of_char c :: nat) \<le> 57)"

definition digit_val :: "char \<Rightarrow> nat" where
  "digit_val c = of_char c - 48"

fun int_digits :: "string \<Rightarrow> nat \<Rightarrow> nat option" where
  "int_digits [] acc = Some acc"
| "int_digits [c] acc = (if is_digit c then Some (10 * acc + digit_val c) else None)"
| "int_digits (c # d # cs) acc =
     (if is_digit c then int_digits (d # cs) (10 * acc + digit_val c)
      else if c = CHR ''_'' \<and> is_digit d then int_digits cs (10 * acc + digit_val d)
      else None)"

definition int_literal :: "string \<Rightarrow> nat option" where
  "int_literal s =
     (case s of
        [] \<Rightarrow> None
      | c # cs \<Rightarrow> if is_digit c then int_digits cs (digit_val c) else None)"

definition py_int :: "string \<Rightarrow> error + int" where
  "py_int s =
     (let t = rev (dropWhile int_isspace (rev (dropWhile int_isspace s)));
          signed = (case t of
                      [] \<Rightarrow> None
                    | c # cs \<Rightarrow>
                        if c = CHR ''-'' then map_option (\<lambda>n. - int n) (int_literal cs)
                        else if c = CHR ''+'' then map_option int (int_literal cs)
                        else map_option int (int_literal t))
      in case signed of
           None \<Rightarrow> Inl (ValueError s)
         | Some i \<Rightarrow>
             if 4300 < int (length (filter is_digit t)) then Inl (ValueError s) else Inr i)"

text \<open>A format field \<open>{s:w}\<close> of a string: padded with spaces on the right, never cut.\<close>

definition ljust :: "nat \<Rightarrow> string \<Rightarrow> string" where
  "ljust w s = s @ replicate (w - length s) CHR '' ''"

text \<open>\<open>sep.join(lines)\<close>.\<close>

fun join :: "string \<Rightarrow> string list \<Rightarrow> string" where
  "join sep [] = []"
| "join sep [x] = x"
| "join sep (x # y # ys) = x @ sep @ join sep (y # ys)"

text \<open>
  \<open>sorted(xs, key=f)\<close> where \<open>f\<close> may raise: the keys are computed first, in order, and
  the first exception leaves the call; then the elements are sorted by key, stably.
\<close>

fun keys_of :: "('a \<Rightarrow> error + int) \<Rightarrow> 'a list \<Rightarrow> error + int list" where
  "keys_of f [] = Inr []"
| "keys_of f (x # xs) =
     (case f x of
        Inl e \<Rightarrow> Inl e
      | Inr k \<Rightarrow> (case keys_of f xs of Inl e \<Rightarrow> Inl e | Inr ks \<Rightarrow> Inr (k # ks)))"

definition py_sorted :: "('a \<Rightarrow> error + int) \<Rightarrow> 'a list \<Rightarrow> error + 'a list" where
  "py_sorted f xs =
     (case keys_of f xs of
        Inl e \<Rightarrow> Inl e
      | Inr ks \<Rightarrow> Inr (map snd (sort_key fst (zip ks xs))))"

text \<open>
  The clock reading \<open>datetime.now()\<close> and its text under the format
  \<open>%Y-%m-%d %H:%M:%S\<close> (years of four digits).
\<close>

record datetime =
  dt_year :: nat
  dt_month :: nat
  dt_day :: nat
  dt_hour :: nat
  dt_minute :: nat
  dt_second :: nat
  dt_microsecond :: nat

definition zfill :: "nat \<Rightarrow> string \<Rightarrow> string" where
  "zfill w s = replicate (w - length s) CHR ''0'' @ s"

definition strftime :: "datetime \<Rightarrow> string" where
  "strftime t =
     zfill 4 (str_nat (dt_year t)) @ ''-'' @ zfill 2 (str_nat (dt_month t)) @ ''-''
     @ zfill 2 (str_nat (dt_day t)) @ '' '' @ zfill 2 (str_nat (dt_hour t)) @ '':''
     @ zfill 2 (str_nat (dt_minute t)) @ '':'' @ zfill 2 (str_nat (dt_second t))"

section \<open>The report parser (core/nmap_parsers.py)\<close>

subsection \<open>The document\<close>

text \<open>
  An element of the tree that \<open>ET.parse\<close> builds: its tag, its attributes and its child
  elements in document order.
\<close>

datatype element =
  Element (tag: string) (attrib: "(string \<times> string) list") (children: "element list")

text \<open>\<open>elem.get(key, default)\<close>, \<open>elem.find(tag)\<close> and \<open>elem.findall(tag)\<close>.\<close>

definition elem_get :: "element \<Rightarrow> string \<Rightarrow> string \<Rightarrow> string" where
  "elem_get e key dflt = (case map_of (attrib e) key of None \<Rightarrow> dflt | Some v \<Rightarrow> v)"

definition elem_find :: "element \<Rightarrow> string \<Rightarrow> element option" where
  "elem_find e t = List.find (\<lambda>c. tag c = t) (children e)"

definition elem_findall :: "element \<Rightarrow> string \<Rightarrow> element list" where
  "elem_findall e t = filter (\<lambda>c. tag c = t) (children e)"

subsection \<open>The model: the dictionaries the parser builds\<close>

text \<open>
  Each dictionary with fixed keys is a record; a field is named after its key, with a
  prefix for the dictionary it belongs to.
\<close>

record hostname =
  hn_name :: string
  hn_type :: string

record script =
  sc_id :: string
  sc_output :: string

record port =
  p_protocol :: string
  p_portid :: string
  p_state :: string
  p_state_reason :: string
  p_service :: string
  p_product :: string
  p_version :: string
  p_extrainfo :: string
  p_method :: string
  p_conf :: string
  p_scripts :: "script list"

record port_stats =
  st_open :: nat
  st_closed :: nat
  st_filtered :: nat
  st_other :: nat

record extrareason =
  r_reason :: string
  r_count :: int

record extraports =
  x_state :: string
  x_count :: int
  x_reasons :: "extrareason list"

record osmatch =
  os_name :: string
  os_accuracy :: string

record hop =
  hop_ttl :: string
  hop_host :: string
  hop_ip :: string
  hop_time :: string

text \<open>The key \<open>extraports\<close> is present only when the host had such an element.\<close>

record host =
  h_state :: string
  h_reason :: string
  h_addr :: string
  h_addrtype :: string
  h_hostnames :: "hostname list"
  h_ports :: "port list"
  h_port_stats :: port_stats
  h_extraports :: "extraports option"
  h_os :: "osmatch list"
  h_trace :: "hop list"

record parser =
  xml_file :: string
  root :: element
  hosts :: "host list"

subsection \<open>Parsing\<close>

text \<open>\<open>_parse_port\<close>: every field is read with a default; nothing is converted.\<close>

definition parse_script :: "element \<Rightarrow> script" where
  "parse_script s = \<lparr>sc_id = elem_get s ''id'' [], sc_output = elem_get s ''output'' []\<rparr>"

definition parse_port :: "element \<Rightarrow> port" where
  "parse_port port_elem =
     (let state = elem_find port_elem ''state'';
          service = elem_find port_elem ''service''
      in \<lparr>p_protocol = elem_get port_elem ''protocol'' ''tcp'',
          p_portid = elem_get port_elem ''portid'' ''unknown'',
          p_state = (case state of None \<Rightarrow> ''unknown'' | Some s \<Rightarrow> elem_get s ''state'' ''unknown''),
          p_state_reason = (case state of None \<Rightarrow> [] | Some s \<Rightarrow> elem_get s ''reason'' []),
          p_service = (case service of None \<Rightarrow> ''unknown'' | Some s \<Rightarrow> elem_get s ''name'' ''unknown''),
          p_product = (case service of None \<Rightarrow> [] | Some s \<Rightarrow> elem_get s ''product'' []),
          p_version = (case service of None \<Rightarrow> [] | Some s \<Rightarrow> elem_get s ''version'' []),
          p_extrainfo = (case service of None \<Rightarrow> [] | Some s \<Rightarrow> elem_get s ''extrainfo'' []),
          p_method = (case service of None \<Rightarrow> [] | Some s \<Rightarrow> elem_get s ''method'' []),
          p_conf = (case service of None \<Rightarrow> ''0'' | Some s \<Rightarrow> elem_get s ''conf'' ''0''),
          p_scripts = map parse_script (elem_findall port_elem ''script'')\<rparr>)"

text \<open>The counting of one port's state, and one turn of the loop over the ports.\<close>

definition zero_stats :: port_stats where
  "zero_stats = \<lparr>st_open = 0, st_closed = 0, st_filtered = 0, st_other = 0\<rparr>"

definition count_state :: "string \<Rightarrow> port_stats \<Rightarrow> port_stats" where
  "count_state state stats =
     (if state = ''open'' then stats\<lparr>st_open := st_open stats + 1\<rparr>
      else if state = ''closed'' then stats\<lparr>st_closed := st_closed stats + 1\<rparr>
      else if state = ''filtered'' then stats\<lparr>st_filtered := st_filtered stats + 1\<rparr>
      else stats\<lparr>st_other := st_other stats + 1\<rparr>)"

definition add_port :: "port list \<times> port_stats \<Rightarrow> element \<Rightarrow> port list \<times> port_stats" where
  "add_port acc port_elem =
     (let port_info = parse_port port_elem
      in (fst acc @ [port_info], count_state (p_state port_info) (snd acc)))"

text \<open>
  \<open>int(elem.get('count', 0))\<close>: the default is the integer 0; a value that is present goes
  through \<open>int\<close> and may be refused.
\<close>

definition parse_count :: "element \<Rightarrow> error + int" where
  "parse_count e = (case map_of (attrib e) ''count'' of None \<Rightarrow> Inr 0 | Some v \<Rightarrow> py_int v)"

fun parse_reasons :: "element list \<Rightarrow> error + extrareason list" where
  "parse_reasons [] = Inr []"
| "parse_reasons (r # rs) =
     (case parse_count r of
        Inl e \<Rightarrow> Inl e
      | Inr c \<Rightarrow>
          (case parse_reasons rs of
             Inl e \<Rightarrow> Inl e
           | Inr out \<Rightarrow> Inr (\<lparr>r_reason = elem_get r ''reason'' [], r_count = c\<rparr> # out)))"

definition parse_extraports :: "element \<Rightarrow> error + extraports" where
  "parse_extraports ep =
     (case parse_count ep of
        Inl e \<Rightarrow> Inl e
      | Inr c \<Rightarrow>
          (case parse_reasons (elem_findall ep ''extrareasons'') of
             Inl e \<Rightarrow> Inl e
           | Inr rs \<Rightarrow>
               Inr \<lparr>x_state = elem_get ep ''state'' ''unknown'', x_count = c, x_reasons = rs\<rparr>))"

text \<open>The loop over the \<open>extraports\<close> elements: each one replaces the one before.\<close>

fun extraports_loop :: "element list \<Rightarrow> extraports option \<Rightarrow> error + extraports option" where
  "extraports_loop [] cur = Inr cur"
| "extraports_loop (ep # eps) cur =
     (case parse_extraports ep of
        Inl e \<Rightarrow> Inl e
      | Inr x \<Rightarrow> extraports_loop eps (Some x))"

text \<open>The ports part of \<open>_parse_host\<close>: the ports, their counts, the extra ports.\<close>

definition parse_ports ::
  "element option \<Rightarrow> error + (port list \<times> port_stats \<times> extraports option)" where
  "parse_ports ports_elem =
     (case ports_elem of
        None \<Rightarrow> Inr ([], zero_stats, None)
      | Some pe \<Rightarrow>
          (let acc = foldl add_port ([], zero_stats) (elem_findall pe ''port'')
           in case extraports_loop (elem_findall pe ''extraports'') None of
                Inl e \<Rightarrow> Inl e
              | Inr x \<Rightarrow> Inr (fst acc, snd acc, x)))"

definition parse_hostnames :: "element option \<Rightarrow> hostname list" where
  "parse_hostnames hostnames_elem =
     (case hostnames_elem of
        None \<Rightarrow> []
      | Some he \<Rightarrow>
          filter (\<lambda>hn. hn_name hn \<noteq> [])
            (map (\<lambda>h. \<lparr>hn_name = elem_get h ''name'' [], hn_type = elem_get h ''type'' []\<rparr>)
               (elem_findall he ''hostname'')))"

definition parse_os :: "element option \<Rightarrow> osmatch list" where
  "parse_os os_elem =
     (case os_elem of
        None \<Rightarrow> []
      | Some oe \<Rightarrow>
          map (\<lambda>m. \<lparr>os_name = elem_get m ''name'' ''Unknown'',
                    os_accuracy = elem_get m ''accuracy'' ''0''\<rparr>)
            (elem_findall oe ''osmatch''))"

definition parse_trace :: "element option \<Rightarrow> hop list" where
  "parse_trace trace_elem =
     (case trace_elem of
        None \<Rightarrow> []
      | Some te \<Rightarrow>
          map (\<lambda>h. \<lparr>hop_ttl = elem_get h ''ttl'' [], hop_host = elem_get h ''host'' [],
                    hop_ip = elem_get h ''ipaddr'' [], hop_time = elem_get h ''time'' []\<rparr>)
            (elem_findall te ''hop''))"

definition parse_host :: "element \<Rightarrow> error + host" where
  "parse_host host_elem =
     (let status = elem_find host_elem ''status'';
          address = elem_find host_elem ''address''
      in case parse_ports (elem_find host_elem ''ports'') of
           Inl e \<Rightarrow> Inl e
         | Inr (ports, stats, extra) \<Rightarrow>
             Inr \<lparr>h_state = (case status of None \<Rightarrow> ''unknown''
                              | Some s \<Rightarrow> elem_get s ''state'' ''unknown''),
                  h_reason = (case status of None \<Rightarrow> [] | Some s \<Rightarrow> elem_get s ''reason'' []),
                  h_addr = (case address of None \<Rightarrow> ''N/A'' | Some a \<Rightarrow> elem_get a ''addr'' ''N/A''),
                  h_addrtype = (case address of None \<Rightarrow> ''ipv4''
                                 | Some a \<Rightarrow> elem_get a ''addrtype'' ''ipv4''),
                  h_hostnames = parse_hostnames (elem_find host_elem ''hostnames''),
                  h_ports = ports,
                  h_port_stats = stats,
                  h_extraports = extra,
                  h_os = parse_os (elem_find host_elem ''os''),
                  h_trace = parse_trace (elem_find host_elem ''trace'')\<rparr>)"

text \<open>\<open>parse_xml\<close>: the hosts in document order; the first exception leaves the loop.\<close>

fun parse_hosts :: "element list \<Rightarrow> error + host list" where
  "parse_hosts [] = Inr []"
| "parse_hosts (h # hs) =
     (case parse_host h of
        Inl e \<Rightarrow> Inl e
      | Inr host_data \<Rightarrow>
          (case parse_hosts hs of Inl e \<Rightarrow> Inl e | Inr rest \<Rightarrow> Inr (host_data # rest)))"

definition parse_xml :: "element \<Rightarrow> error + host list" where
  "parse_xml r = parse_hosts (elem_findall r ''host'')"

text \<open>
  The constructor. Its second argument is what \<open>ET.parse(xml_file)\<close> does on the file:
  it raises (\<open>ParseError\<close> on a document that is not well formed) or gives the tree.
\<close>

definition NmapXMLParser :: "string \<Rightarrow> error + element \<Rightarrow> error + parser" where
  "NmapXMLParser file parsed =
     (case parsed of
        Inl e \<Rightarrow> Inl e
      | Inr r \<Rightarrow>
          (case parse_xml r of
             Inl e \<Rightarrow> Inl e
           | Inr hs \<Rightarrow> Inr \<lparr>xml_file = file, root = r, hosts = hs\<rparr>))"

subsection \<open>Rendering\<close>

text \<open>
  The renderer calls \<open>str.upper()\<close> on the state of a host. Upper-casing is the
  interpreter's, over all of Unicode; the rendering functions take it as the parameter
  \<open>upper\<close>.
\<close>

text \<open>\<open>_format_port\<close>: one line for a port.\<close>

definition format_port :: "port \<Rightarrow> string" where
  "format_port p =
     (let port_line = ''  '' @ p_portid p @ ''/'' @ ljust 3 (p_protocol p) @ '' ''
                      @ ljust 8 (p_state p) @ '' '' @ ljust 15 (p_service p);
          port_line2 = (if p_product p \<noteq> [] \<or> p_version p \<noteq> []
                        then port_line @ '' '' @ p_product p
                             @ (if p_version p \<noteq> [] then '' '' @ p_version p else [])
                        else port_line)
      in if p_extrainfo p \<noteq> [] then port_line2 @ '' ('' @ p_extrainfo p @ '')'' else port_line2)"

text \<open>The sort key of the port listings: \<open>int(x['portid'])\<close>.\<close>

definition port_key :: "port \<Rightarrow> error + int" where
  "port_key p = py_int (p_portid p)"

definition ports_in_state :: "string \<Rightarrow> host \<Rightarrow> port list" where
  "ports_in_state s h = filter (\<lambda>p. p_state p = s) (h_ports h)"

text \<open>
  \<open>_format_host\<close>, block by block in the order of the source. The first lines: address,
  status, host names, port summary.
\<close>

definition host_head_lines :: "(string \<Rightarrow> string) \<Rightarrow> host \<Rightarrow> nat \<Rightarrow> string list" where
  "host_head_lines upper h host_num =
     [CHR 0x0A # ''HOST '' @ str_nat host_num,
      replicate 80 CHR ''-'',
      ''Address: '' @ h_addr h @ '' ('' @ h_addrtype h @ '')'',
      ''Status: '' @ upper (h_state h) @ '' ('' @ h_reason h @ '')'']
     @ (if h_hostnames h \<noteq> []
        then ''Hostnames:''
             # map (\<lambda>hn. ''  '' @ hn_name hn @ '' ('' @ hn_type hn @ '')'') (h_hostnames h)
        else [])
     @ [CHR 0x0A # ''Port Summary:'',
        ''  Open: '' @ str_nat (st_open (h_port_stats h))
        @ '', Closed: '' @ str_nat (st_closed (h_port_stats h))
        @ '', Filtered: '' @ str_nat (st_filtered (h_port_stats h))
        @ '', Other: '' @ str_nat (st_other (h_port_stats h))]"

definition open_ports_lines :: "host \<Rightarrow> error + string list" where
  "open_ports_lines h =
     (let open_ports = ports_in_state ''open'' h
      in if open_ports \<noteq> []
         then (case py_sorted port_key open_ports of
                 Inl e \<Rightarrow> Inl e
               | Inr ps \<Rightarrow>
                   Inr ((CHR 0x0A # ''OPEN PORTS ('' @ str_nat (length open_ports) @ ''):'')
                        # map format_port ps))
         else Inr [])"

definition filtered_ports_lines :: "host \<Rightarrow> error + string list" where
  "filtered_ports_lines h =
     (let filtered_ports = ports_in_state ''filtered'' h
      in if filtered_ports \<noteq> []
         then (case py_sorted port_key filtered_ports of
                 Inl e \<Rightarrow> Inl e
               | Inr ps \<Rightarrow>
                   Inr ((CHR 0x0A # ''FILTERED PORTS ('' @ str_nat (length filtered_ports) @ ''):'')
                        # map format_port (take 10 ps)
                        @ (if length filtered_ports > 10
                           then [''  ... and '' @ str_nat (length filtered_ports - 10)
                                 @ '' more filtered ports'']
                           else [])))
         else Inr [])"

definition closed_ports_lines :: "host \<Rightarrow> error + string list" where
  "closed_ports_lines h =
     (let closed_ports = ports_in_state ''closed'' h
      in if closed_ports \<noteq> [] \<and> length closed_ports \<le> 10
         then (case py_sorted port_key closed_ports of
                 Inl e \<Rightarrow> Inl e
               | Inr ps \<Rightarrow>
                   Inr ((CHR 0x0A # ''CLOSED PORTS ('' @ str_nat (length closed_ports) @ ''):'')
                        # map format_port ps))
         else if closed_ports \<noteq> []
         then Inr [CHR 0x0A # ''CLOSED PORTS: '' @ str_nat (length closed_ports) @ '' ports closed'']
         else Inr [])"

text \<open>
  The extra ports: one line with the count and the state, then one line for each reason.
  The counts are integers read from the document and are written with \<open>str\<close>.
\<close>

fun reason_lines :: "extrareason list \<Rightarrow> error + string list" where
  "reason_lines [] = Inr []"
| "reason_lines (r # rs) =
     (case py_str (r_count r) of
        Inl e \<Rightarrow> Inl e
      | Inr c \<Rightarrow>
          (case reason_lines rs of
             Inl e \<Rightarrow> Inl e
           | Inr ls \<Rightarrow> Inr ((''  '' @ r_reason r @ '': '' @ c) # ls)))"

definition extraports_lines :: "host \<Rightarrow> error + string list" where
  "extraports_lines h =
     (case h_extraports h of
        None \<Rightarrow> Inr []
      | Some extra \<Rightarrow>
          (case py_str (x_count extra) of
             Inl e \<Rightarrow> Inl e
           | Inr c \<Rightarrow>
               (case reason_lines (x_reasons extra) of
                  Inl e \<Rightarrow> Inl e
                | Inr ls \<Rightarrow>
                    Inr ((CHR 0x0A # ''EXTRA PORTS: '' @ c @ '' ports '' @ x_state extra) # ls))))"

text \<open>The last lines: operating system matches (three at most), trace.\<close>

definition os_trace_lines :: "host \<Rightarrow> string list" where
  "os_trace_lines h =
     (if h_os h \<noteq> []
      then (CHR 0x0A # ''OS DETECTION:'')
           # map (\<lambda>m. ''  '' @ os_name m @ '' ('' @ os_accuracy m @ ''%)'') (take 3 (h_os h))
      else [])
     @ (if h_trace h \<noteq> []
        then (CHR 0x0A # ''TRACEROUTE:'')
             # map (\<lambda>t. ''  TTL '' @ hop_ttl t @ '': '' @ hop_host t @ '' ('' @ hop_ip t
                        @ '') - '' @ hop_time t @ ''ms'') (h_trace h)
        else [])"

definition host_tail_lines :: "host \<Rightarrow> error + string list" where
  "host_tail_lines h =
     (case extraports_lines h of
        Inl e \<Rightarrow> Inl e
      | Inr extra_lines \<Rightarrow> Inr (extra_lines @ os_trace_lines h))"

definition format_host :: "(string \<Rightarrow> string) \<Rightarrow> host \<Rightarrow> nat \<Rightarrow> error + string list" where
  "format_host upper h host_num =
     (case open_ports_lines h of
        Inl e \<Rightarrow> Inl e
      | Inr open_lines \<Rightarrow>
          (case filtered_ports_lines h of
             Inl e \<Rightarrow> Inl e
           | Inr filtered_lines \<Rightarrow>
               (case closed_ports_lines h of
                  Inl e \<Rightarrow> Inl e
                | Inr closed_lines \<Rightarrow>
                    (case host_tail_lines h of
                       Inl e \<Rightarrow> Inl e
                     | Inr tail_lines \<Rightarrow>
                         Inr (host_head_lines upper h host_num @ open_lines @ filtered_lines
                              @ closed_lines @ tail_lines)))))"

text \<open>\<open>_format_summary\<close>: totals over the hosts' counts.\<close>

definition format_summary :: "host list \<Rightarrow> string list" where
  "format_summary hs =
     [CHR 0x0A # replicate 80 CHR ''='',
      ''SCAN SUMMARY'',
      replicate 80 CHR ''='',
      ''Total Hosts Scanned: '' @ str_nat (length hs),
      ''Hosts Up: '' @ str_nat (length (filter (\<lambda>h. h_state h = ''up'') hs)),
      CHR 0x0A # ''Port Statistics (All Hosts):'',
      ''  Total Open: '' @ str_nat (sum_list (map (\<lambda>h. st_open (h_port_stats h)) hs)),
      ''  Total Closed: '' @ str_nat (sum_list (map (\<lambda>h. st_closed (h_port_stats h)) hs)),
      ''  Total Filtered: '' @ str_nat (sum_list (map (\<lambda>h. st_filtered (h_port_stats h)) hs))]"

text \<open>The loop over the hosts in \<open>_build_report\<close>, numbered from \<open>i\<close>.\<close>

fun format_hosts :: "(string \<Rightarrow> string) \<Rightarrow> host list \<Rightarrow> nat \<Rightarrow> error + string list" where
  "format_hosts upper [] i = Inr []"
| "format_hosts upper (h # hs) i =
     (case format_host upper h i of
        Inl e \<Rightarrow> Inl e
      | Inr ls \<Rightarrow>
          (case format_hosts upper hs (Suc i) of
             Inl e \<Rightarrow> Inl e
           | Inr rest \<Rightarrow> Inr (ls @ rest)))"

text \<open>\<open>_build_report\<close> when the clock reads \<open>now\<close>.\<close>

definition build_report :: "(string \<Rightarrow> string) \<Rightarrow> datetime \<Rightarrow> parser \<Rightarrow> error + string" where
  "build_report upper now p =
     (case format_hosts upper (hosts p) 1 of
        Inl e \<Rightarrow> Inl e
      | Inr host_lines \<Rightarrow>
          Inr (join [CHR 0x0A]
            ([replicate 80 CHR ''='',
              ''NMAP SCAN REPORT'',
              replicate 80 CHR ''='',
              ''Generated: '' @ strftime now,
              ''XML File: '' @ xml_file p,
              [],
              ''SCAN INFORMATION'',
              replicate 80 CHR ''-'',
              ''Nmap Version: '' @ elem_get (root p) ''version'' ''N/A'',
              ''Command: '' @ elem_get (root p) ''args'' ''N/A'',
              ''Total Hosts: '' @ str_nat (length (hosts p)),
              []]
             @ host_lines @ format_summary (hosts p) @ [replicate 80 CHR ''=''])))"

subsection \<open>Writing the report\<close>

text \<open>
  The files: their content, what the disk does when a path is written, and which texts
  the default encoding of a text file can encode.
\<close>

datatype disk = CannotOpen | WriteFails nat | Accepts

record filesystem =
  content :: "string \<Rightarrow> string option"
  disk :: "string \<Rightarrow> disk"
  encodable :: "string \<Rightarrow> bool"

text \<open>
  \<open>with open(path, 'w') as f: f.write(text)\<close>: the file system after it, and the exception
  if one is raised. When the file cannot be opened nothing changes and \<open>OSError\<close> is
  raised. Opening empties the file. A text that cannot be encoded raises
  \<open>UnicodeEncodeError\<close> and the file stays empty. When the disk fails during the write
  (\<open>WriteFails n\<close>) the first \<open>n\<close> characters have reached the file and \<open>OSError\<close> is raised.
\<close>

definition write_file :: "string \<Rightarrow> string \<Rightarrow> filesystem \<Rightarrow> filesystem \<times> error option" where
  "write_file path text fs =
     (case disk fs path of
        CannotOpen \<Rightarrow> (fs, Some (OSError path))
      | WriteFails n \<Rightarrow>
          if encodable fs text
          then (fs\<lparr>content := (content fs)(path \<mapsto> take n text)\<rparr>, Some (OSError path))
          else (fs\<lparr>content := (content fs)(path \<mapsto> [])\<rparr>, Some UnicodeEncodeError)
      | Accepts \<Rightarrow>
          if encodable fs text
          then (fs\<lparr>content := (content fs)(path \<mapsto> text)\<rparr>, None)
          else (fs\<lparr>content := (content fs)(path \<mapsto> [])\<rparr>, Some UnicodeEncodeError))"

text \<open>
  \<open>generate_report\<close>: the file system after the call, and the returned report or the
  exception. The file is written only for a destination that is given and not empty.
\<close>

definition generate_report ::
  "(string \<Rightarrow> string) \<Rightarrow> datetime \<Rightarrow> parser \<Rightarrow> string option \<Rightarrow> filesystem
   \<Rightarrow> filesystem \<times> (error + string)" where
  "generate_report upper now p output_file fs =
     (case build_report upper now p of
        Inl e \<Rightarrow> (fs, Inl e)
      | Inr report \<Rightarrow>
          (case output_file of
             None \<Rightarrow> (fs, Inr report)
           | Some path \<Rightarrow>
               if path \<noteq> []
               then (case write_file path report fs of
                       (fs1, Some e) \<Rightarrow> (fs1, Inl e)
                     | (fs1, None) \<Rightarrow> (fs1, Inr report))
               else (fs, Inr report)))"

text \<open>
  \<open>_export_parsed_xml\<close> of the export dialog (ui/modals.py): parse, render, write; every
  exception is caught and raised again as a plain \<open>Exception\<close> whose message is
  \<open>XML Parsing Error: \<close> followed by the message of the one caught.
\<close>

definition export_parsed_xml ::
  "(string \<Rightarrow> string) \<Rightarrow> datetime \<Rightarrow> string \<Rightarrow> error + element \<Rightarrow> string \<Rightarrow> filesystem
   \<Rightarrow> filesystem \<times> (error + string)" where
  "export_parsed_xml upper now output_file parsed output_path fs =
     (case NmapXMLParser output_file parsed of
        Inl e \<Rightarrow> (fs, Inl (Exception ''XML Parsing Error: '' e))
      | Inr p \<Rightarrow>
          (case generate_report upper now p None fs of
             (fs1, Inl e) \<Rightarrow> (fs1, Inl (Exception ''XML Parsing Error: '' e))
           | (fs1, Inr report) \<Rightarrow>
               (case write_file output_path report fs1 of
                  (fs2, Some e) \<Rightarrow> (fs2, Inl (Exception ''XML Parsing Error: '' e))
                | (fs2, None) \<Rightarrow> (fs2, Inr output_path))))"

section \<open>Notions of the specification and sample documents\<close>

text \<open>The sum of the four counts of a host.\<close>

definition stats_sum :: "port_stats \<Rightarrow> nat" where
  "stats_sum st = st_open st + st_closed st + st_filtered st + st_other st"

text \<open>A host element without a \<open>ports\<close> element.\<close>

definition portless_host :: element where
  "portless_host =
     Element ''host'' []
       [Element ''status'' [(''state'', ''up'')] [],
        Element ''address'' [(''addr'', ''10.0.0.7'')] []]"

text \<open>
  A document with two hosts: the first with two open ports, a filtered one, a closed
  one and a group of extra ports; the second without ports.
\<close>

definition sample_doc :: element where
  "sample_doc =
     Element ''nmaprun'' [(''args'', ''nmap -sS 10.0.0.1''), (''version'', ''7.94'')]
       [Element ''host'' []
          [Element ''status'' [(''state'', ''up''), (''reason'', ''echo-reply'')] [],
           Element ''address'' [(''addr'', ''10.0.0.1''), (''addrtype'', ''ipv4'')] [],
           Element ''ports'' []
             [Element ''extraports'' [(''state'', ''closed''), (''count'', ''996'')]
                [Element ''extrareasons'' [(''reason'', ''resets''), (''count'', ''996'')] []],
              Element ''port'' [(''protocol'', ''tcp''), (''portid'', ''443'')]
                [Element ''state'' [(''state'', ''open'')] [],
                 Element ''service'' [(''name'', ''https''), (''product'', ''nginx'')] []],
              Element ''port'' [(''protocol'', ''tcp''), (''portid'', ''22'')]
                [Element ''state'' [(''state'', ''open'')] []],
              Element ''port'' [(''portid'', ''80'')]
                [Element ''state'' [(''state'', ''filtered'')] []],
              Element ''port'' [(''portid'', ''25'')]
                [Element ''state'' [(''state'', ''closed'')] []]]],
        portless_host]"

text \<open>
  A listing \<open>out\<close> of the ports \<open>src\<close> in ascending order of port number: the same
  ports, every port id a number, the numbers not decreasing, and ports of equal number
  in the order they had in \<open>src\<close>.
\<close>

definition sorted_listing :: "port list \<Rightarrow> port list \<Rightarrow> bool" where
  "sorted_listing src out \<longleftrightarrow>
     mset out = mset src
     \<and> (\<exists>ks. map port_key out = map Inr ks \<and> sorted ks)
     \<and> (\<forall>k. filter (\<lambda>p. port_key p = Inr k) out = filter (\<lambda>p. port_key p = Inr k) src)"

text \<open>
  Hosts for the listings: a port with a given id, protocol and state, and a host with
  given ports and the counts the parser derives from them.
\<close>

definition mk_port :: "string \<Rightarrow> string \<Rightarrow> string \<Rightarrow> port" where
  "mk_port portid proto state =
     \<lparr>p_protocol = proto, p_portid = portid, p_state = state, p_state_reason = [],
      p_service = ''unknown'', p_product = [], p_version = [], p_extrainfo = [],
      p_method = [], p_conf = ''0'', p_scripts = []\<rparr>"

definition mk_host :: "port list \<Rightarrow> host" where
  "mk_host ps =
     \<lparr>h_state = ''up'', h_reason = ''syn-ack'', h_addr = ''10.0.0.2'', h_addrtype = ''ipv4'',
      h_hostnames = [], h_ports = ps,
      h_port_stats = snd (foldl (\<lambda>acc p. (fst acc @ [p], count_state (p_state p) (snd acc)))
                           ([], zero_stats) ps),
      h_extraports = None, h_os = [], h_trace = []\<rparr>"

text \<open>
  A host with twelve filtered ports stored in descending order, three open ports (two
  of them numbered 22) and one closed port.
\<close>

definition listing_host :: host where
  "listing_host =
     mk_host (map (\<lambda>n. mk_port (str_nat n) ''tcp'' ''filtered'') (rev [101..<113])
              @ [mk_port ''443'' ''tcp'' ''open'', mk_port ''22'' ''udp'' ''open'',
                 mk_port ''22'' ''tcp'' ''open'', mk_port ''25'' ''tcp'' ''closed''])"

text \<open>
  A host with eleven closed ports, the first without a numeric id, and one open port.
\<close>

definition many_closed_host :: host where
  "many_closed_host =
     mk_host (mk_port ''unknown'' ''tcp'' ''closed''
              # map (\<lambda>n. mk_port (str_nat n) ''tcp'' ''closed'') (rev [1..<11])
              @ [mk_port ''80'' ''tcp'' ''open''])"

text \<open>
  A host element whose only port is closed and has no \<open>portid\<close> attribute.
\<close>

definition unnumbered_closed_host :: element where
  "unnumbered_closed_host =
     Element ''host'' []
       [Element ''ports'' []
          [Element ''port'' [(''protocol'', ''tcp'')]
             [Element ''state'' [(''state'', ''closed'')] []]]]"

text \<open>
  A document with one host and one port, of the given attributes and state.
\<close>

definition odd_port_doc :: "(string \<times> string) list \<Rightarrow> string \<Rightarrow> element" where
  "odd_port_doc port_attrib state =
     Element ''nmaprun'' [(''args'', ''nmap 10.0.0.3''), (''version'', ''7.94'')]
       [Element ''host'' []
          [Element ''address'' [(''addr'', ''10.0.0.3'')] [],
           Element ''ports'' []
             [Element ''port'' port_attrib [Element ''state'' [(''state'', state)] []]]]]"

text \<open>
  The count attributes the parser converts: that of an \<open>extraports\<close> element and of its
  \<open>extrareasons\<close> children, under the first \<open>ports\<close> element of each host. A count is
  acceptable when the attribute is absent or \<open>int\<close> accepts its text; its value is then 0
  or the integer that \<open>int\<close> gives.
\<close>

definition count_ok :: "element \<Rightarrow> bool" where
  "count_ok e = (case map_of (attrib e) ''count'' of None \<Rightarrow> True | Some v \<Rightarrow> \<not> isl (py_int v))"

definition count_value :: "element \<Rightarrow> int" where
  "count_value e =
     (case map_of (attrib e) ''count'' of
        None \<Rightarrow> 0
      | Some v \<Rightarrow> (case py_int v of Inl x \<Rightarrow> 0 | Inr i \<Rightarrow> i))"

definition extraports_ok :: "element \<Rightarrow> bool" where
  "extraports_ok ep = (count_ok ep \<and> list_all count_ok (elem_findall ep ''extrareasons''))"

definition host_counts_ok :: "element \<Rightarrow> bool" where
  "host_counts_ok h =
     (case elem_find h ''ports'' of
        None \<Rightarrow> True
      | Some pe \<Rightarrow> list_all extraports_ok (elem_findall pe ''extraports''))"

definition counts_numeric :: "element \<Rightarrow> bool" where
  "counts_numeric r = list_all host_counts_ok (elem_findall r ''host'')"

text \<open>
  What a host element says about port ids, accuracies and extra ports, and the host that
  stores it as it is: every port id and accuracy as the text of the attribute (\<open>unknown\<close>
  and \<open>0\<close> when the attribute is missing), and the last \<open>extraports\<close> element with its
  count and the counts of its reasons.
\<close>

definition child_elems :: "element \<Rightarrow> string \<Rightarrow> string \<Rightarrow> element list" where
  "child_elems e parent t =
     (case elem_find e parent of None \<Rightarrow> [] | Some g \<Rightarrow> elem_findall g t)"

definition extraports_of :: "element \<Rightarrow> extraports" where
  "extraports_of ep =
     \<lparr>x_state = elem_get ep ''state'' ''unknown'',
      x_count = count_value ep,
      x_reasons = map (\<lambda>r. \<lparr>r_reason = elem_get r ''reason'' [], r_count = count_value r\<rparr>)
                    (elem_findall ep ''extrareasons'')\<rparr>"

definition stored_as_text :: "element \<Rightarrow> host \<Rightarrow> bool" where
  "stored_as_text e h \<longleftrightarrow>
     map p_portid (h_ports h)
       = map (\<lambda>pe. elem_get pe ''portid'' ''unknown'') (child_elems e ''ports'' ''port'')
     \<and> map os_accuracy (h_os h)
       = map (\<lambda>m. elem_get m ''accuracy'' ''0'') (child_elems e ''os'' ''osmatch'')
     \<and> h_extraports h
       = (if child_elems e ''ports'' ''extraports'' = [] then None
          else Some (extraports_of (last (child_elems e ''ports'' ''extraports''))))"

text \<open>
  A well-formed document whose \<open>extraports\<close> count is not a number.
\<close>

definition bad_count_doc :: element where
  "bad_count_doc =
     Element ''nmaprun'' [(''args'', ''nmap 10.0.0.4''), (''version'', ''7.94'')]
       [Element ''host'' []
          [Element ''ports'' []
             [Element ''extraports'' [(''state'', ''closed''), (''count'', ''many'')] []]]]"

text \<open>
  A document without hosts, and the parser object built from it.
\<close>

definition empty_doc :: element where
  "empty_doc = Element ''nmaprun'' [(''args'', ''nmap 10.0.0.5''), (''version'', ''7.94'')] []"

definition empty_scan :: parser where
  "empty_scan = \<lparr>xml_file = ''scan.xml'', root = empty_doc, hosts = []\<rparr>"

text \<open>
  Three clock readings: one, the same second a quarter of a second later, and the next
  second.
\<close>

definition nine_oclock :: datetime where
  "nine_oclock = \<lparr>dt_year = 2026, dt_month = 11, dt_day = 4, dt_hour = 9, dt_minute = 0,
                   dt_second = 0, dt_microsecond = 0\<rparr>"

definition a_moment_later :: datetime where
  "a_moment_later = nine_oclock\<lparr>dt_microsecond := 250000\<rparr>"

definition a_second_later :: datetime where
  "a_second_later = nine_oclock\<lparr>dt_second := 1\<rparr>"

text \<open>
  A file system with a UTF-8 default encoding, where the disk fails after forty characters
  on \<open>/srv/report.txt\<close>, where \<open>/tmp/report.txt\<close> can be written, and where no other path
  can be opened.
\<close>

definition failing_fs :: filesystem where
  "failing_fs =
     \<lparr>content = Map.empty,
      disk = (\<lambda>path. if path = ''/srv/report.txt'' then WriteFails 40
                     else if path = ''/tmp/report.txt'' then Accepts else CannotOpen),
      encodable = (\<lambda>text. True)\<rparr>"

text \<open>
  A document whose \<open>extraports\<close> element has no count and a reason with the count 7.
\<close>

definition default_count_doc :: element where
  "default_count_doc =
     Element ''nmaprun'' []
       [Element ''host'' []
          [Element ''ports'' []
             [Element ''extraports'' [(''state'', ''filtered'')]
                [Element ''extrareasons'' [(''reason'', ''no-responses''), (''count'', ''7'')] []],
              Element ''port'' [(''portid'', ''http'')] []],
           Element ''os'' [] [Element ''osmatch'' [(''name'', ''Linux'')] []]]]"

text \<open>
  The lines of a stream that the loop reads and decodes, and what it forwards for such a
  line.
\<close>

definition readable :: "raw_line \<Rightarrow> bool" where
  "readable raw = (line_bytes raw \<le> reader_limit \<and> line_text raw \<noteq> None)"

definition forwarded :: "raw_line \<Rightarrow> string" where
  "forwarded raw = (case line_text raw of None \<Rightarrow> [] | Some decoded \<Rightarrow> str_strip decoded)"

text \<open>A line of 70000 bytes, and a line that is not valid UTF-8.\<close>

definition long_line :: raw_line where
  "long_line = \<lparr>line_bytes = 70000, line_text = Some (''x'' @ [CHR 0x0A])\<rparr>"

definition undecodable_line :: raw_line where
  "undecodable_line = \<lparr>line_bytes = 2, line_text = None\<rparr>"

text \<open>The report up to the clock reading: the banner and the label of the line.\<close>

definition report_banner :: string where
  "report_banner =
     replicate 80 CHR ''='' @ [CHR 0x0A] @ ''NMAP SCAN REPORT'' @ [CHR 0x0A]
     @ replicate 80 CHR ''='' @ [CHR 0x0A] @ ''Generated: ''"

section \<open>Properties of the stream classifier\<close>

lemma classify_line_written: "written (classify_line d st) = written st @ [str_strip d]"
  by (simp add: classify_line_def Let_def)

text \<open>
  What one line does to the collected names: the previous line is appended when it is
  not empty, the stripped line starts with the marker, and at most 25 names are held.
\<close>

lemma classify_line_collects:
  "script_names (classify_line d st) =
     (if last_line st \<noteq> [] \<and> startswith (str_strip d) ''Categories:''
         \<and> length (script_names st) \<le> 25
      then script_names st @ [last_line st] else script_names st)"
  by (simp add: classify_line_def Let_def)

text \<open>The list never holds more than 26 names, after any prefix of the stream.\<close>

lemma classify_line_names_bound:
  "length (script_names st) \<le> 26 \<Longrightarrow> length (script_names (classify_line d st)) \<le> 26"
  by (simp add: classify_line_def Let_def)

lemma stream_loop_names_bound:
  "length (script_names st) \<le> 26 \<Longrightarrow> length (script_names (fst (stream_loop xs st))) \<le> 26"
  by (induction xs st rule: stream_loop.induct)
     (simp_all add: classify_line_names_bound split: option.splits)

lemma example_alpha_beta:
  "snd (scripts_stream_process
     [text_line ''alpha'', text_line ''Categories: x'', text_line ''beta'',
      text_line ''Categories: y''] 0 [])
   = Inr [''alpha'', ''beta'']"
  by code_simp

lemma example_first_line_header:
  "snd (scripts_stream_process [text_line ''Categories: x''] 0 []) = Inr []"
  by code_simp

text \<open>What the loop has written, and whether it raises.\<close>

lemma stream_loop_written:
  "written (fst (stream_loop xs st)) = written st @ map forwarded (takeWhile readable xs)"
  by (induction xs st rule: stream_loop.induct)
     (auto simp: readable_def forwarded_def classify_line_written split: option.splits)

lemma stream_loop_raises:
  "snd (stream_loop xs st) = None \<longleftrightarrow> list_all readable xs"
  by (induction xs st rule: stream_loop.induct)
     (auto simp: readable_def split: option.splits)

text \<open>
  C2. The claim: the collected names are capped at 25, and 30 distinct qualifying header
  pairs give exactly 25 names. The loop tests \<open>len(script_names) <= 25\<close> before it
  appends, so a list of 25 names still grows: on 30 distinct header pairs the function
  returns 26 names, the first 26 of the 30.
\<close>

theorem cap_thirty_pairs:
  "snd (scripts_stream_process (header_pairs 30) 0 []) = Inr (header_names 26)
   \<and> length (header_names 26) = 26 \<and> distinct (header_names 30)"
  by code_simp

text \<open>
  C4. The claim: every line reaches the sink unchanged and in arrival order. The loop
  writes \<open>line.strip()\<close>, so a line with white space at either end is not written as
  it came: the line \<open>"  alpha"\<close> is written as \<open>"alpha"\<close>. And a line of 70000 bytes is
  not written at all, nor is the line after it: the reader refuses it and the call
  raises.
\<close>

theorem forward_verbatim_counterexample:
  "fst (scripts_stream_process [text_line ''  alpha''] 0 []) = [''alpha'', finished_marker 0]
   \<and> ''alpha'' \<noteq> ''  alpha''
   \<and> scripts_stream_process [text_line ''alpha'', long_line, text_line ''beta''] 0 []
       = ([''alpha''], Inl LineTooLong)"
  by code_simp

text \<open>
  C4, amended. The log holds what it held before, then, in arrival order, every line up
  to the first one that the reader refuses (more than 65536 bytes before its newline) or
  that does not decode, each stripped of leading and trailing white space. When every
  line is read and decoded the completion line follows and the call returns; otherwise
  the call raises and nothing more is written.
\<close>

theorem forward_stripped_in_order:
  "fst (scripts_stream_process stdout rc log)
     = log @ map forwarded (takeWhile readable stdout)
       @ (if list_all readable stdout then [finished_marker rc] else [])
   \<and> (isl (snd (scripts_stream_process stdout rc log)) \<longleftrightarrow> \<not> list_all readable stdout)"
proof -
  let ?init = "\<lparr>written = log, script_names = [], last_line = []\<rparr>"
  obtain st e where r: "stream_loop stdout ?init = (st, e)"
    by (cases "stream_loop stdout ?init")
  have w: "written st = log @ map forwarded (takeWhile readable stdout)"
    using stream_loop_written [of stdout ?init] r by simp
  have n: "e = None \<longleftrightarrow> list_all readable stdout"
    using stream_loop_raises [of stdout ?init] r by simp
  show ?thesis
  proof (cases e)
    case None
    with r w n show ?thesis by (simp add: scripts_stream_process_def)
  next
    case (Some x)
    with r w n show ?thesis by (simp add: scripts_stream_process_def)
  qed
qed

theorem forward_stripped_in_order_witness:
  "list_all readable [text_line ''  alpha'', text_line ''Categories: x'']
   \<and> fst (scripts_stream_process [text_line ''  alpha'', text_line ''Categories: x''] 0 [''old''])
       = [''old'', ''alpha'', ''Categories: x'', finished_marker 0]
   \<and> \<not> list_all readable [text_line ''alpha'', undecodable_line, text_line ''beta'']
   \<and> fst (scripts_stream_process [text_line ''alpha'', undecodable_line, text_line ''beta'']
            0 [''old''])
       = [''old'', ''alpha'']
   \<and> isl (snd (scripts_stream_process [text_line ''alpha'', undecodable_line, text_line ''beta'']
                 0 [''old'']))"
proof -
  have a: "list_all readable [text_line ''  alpha'', text_line ''Categories: x'']"
    by code_simp
  have b: "\<not> list_all readable [text_line ''alpha'', undecodable_line, text_line ''beta'']"
    by code_simp
  have c: "map forwarded (takeWhile readable [text_line ''  alpha'', text_line ''Categories: x''])
           = [''alpha'', ''Categories: x'']"
    by code_simp
  have d: "map forwarded (takeWhile readable
             [text_line ''alpha'', undecodable_line, text_line ''beta'']) = [''alpha'']"
    by code_simp
  from forward_stripped_in_order
         [of "[text_line ''  alpha'', text_line ''Categories: x'']" 0 "[''old'']"]
       forward_stripped_in_order
         [of "[text_line ''alpha'', undecodable_line, text_line ''beta'']" 0 "[''old'']"]
       a b c d
  show ?thesis by simp
qed

text \<open>
  C5. The claim: a line causes a collection exactly when the preceding forwarded line is
  not empty, the line begins with \<open>Categories:\<close>, and fewer than 25 names have been
  collected. After 25 header pairs the list holds 25 names; the 26th header is collected
  all the same, because the loop tests \<open>len(script_names) <= 25\<close>.
\<close>

theorem cap_twenty_sixth_header:
  "length (script_names (fst (stream_loop (header_pairs 25 @ [text_line ''s25''])
       \<lparr>written = [], script_names = [], last_line = []\<rparr>))) = 25
   \<and> script_names (classify_line (''Categories: safe'' @ [CHR 0x0A])
        (fst (stream_loop (header_pairs 25 @ [text_line ''s25''])
           \<lparr>written = [], script_names = [], last_line = []\<rparr>))) = header_names 26"
  by code_simp

section \<open>Properties of the parser\<close>

lemma count_state_sum: "stats_sum (count_state s st) = Suc (stats_sum st)"
  by (simp add: count_state_def stats_sum_def)

lemma add_port_sum:
  "stats_sum (snd acc) = length (fst acc) \<Longrightarrow>
   stats_sum (snd (add_port acc e)) = length (fst (add_port acc e))"
  by (simp add: add_port_def Let_def count_state_sum)

lemma foldl_add_port_sum:
  "stats_sum (snd acc) = length (fst acc) \<Longrightarrow>
   stats_sum (snd (foldl add_port acc es)) = length (fst (foldl add_port acc es))"
  by (induction es arbitrary: acc) (simp_all add: add_port_sum)

lemma parse_ports_sum:
  assumes "parse_ports pe = Inr (ps, st, x)"
  shows "stats_sum st = length ps"
proof (cases pe)
  case None
  with assms show ?thesis
    by (auto simp: parse_ports_def zero_stats_def stats_sum_def)
next
  case (Some e)
  have "stats_sum (snd (foldl add_port ([], zero_stats) (elem_findall e ''port'')))
        = length (fst (foldl add_port ([], zero_stats) (elem_findall e ''port'')))"
    by (rule foldl_add_port_sum) (simp add: zero_stats_def stats_sum_def)
  with assms Some show ?thesis
    by (auto simp: parse_ports_def Let_def split: sum.splits)
qed

lemma parse_host_sum:
  assumes "parse_host e = Inr h"
  shows "stats_sum (h_port_stats h) = length (h_ports h)"
proof -
  from assms obtain ps st x where
    pp: "parse_ports (elem_find e ''ports'') = Inr (ps, st, x)"
    and h: "h_ports h = ps" "h_port_stats h = st"
    by (auto simp: parse_host_def Let_def split: sum.splits)
  from parse_ports_sum [OF pp] h show ?thesis by simp
qed

lemma parse_hosts_sum:
  "parse_hosts es = Inr hs \<Longrightarrow> \<forall>h\<in>set hs. stats_sum (h_port_stats h) = length (h_ports h)"
proof (induction es arbitrary: hs)
  case Nil
  then show ?case by simp
next
  case (Cons e es)
  then show ?case
    by (auto split: sum.splits dest: parse_host_sum)
qed

text \<open>
  C6. For every host of a parsed document the four counts add up to the number of its
  ports; and a host element without a \<open>ports\<close> element parses, to a host with four
  zero counts and no ports.
\<close>

theorem port_stats_sum:
  "(NmapXMLParser file parsed = Inr p \<longrightarrow>
      (\<forall>h\<in>set (hosts p). stats_sum (h_port_stats h) = length (h_ports h)))
   \<and> (elem_find host_elem ''ports'' = None \<longrightarrow>
      (\<exists>h. parse_host host_elem = Inr h \<and> h_port_stats h = zero_stats \<and> h_ports h = []))"
proof (intro conjI impI)
  assume "NmapXMLParser file parsed = Inr p"
  then obtain r where "parse_hosts (elem_findall r ''host'') = Inr (hosts p)"
    by (auto simp: NmapXMLParser_def parse_xml_def split: sum.splits)
  then show "\<forall>h\<in>set (hosts p). stats_sum (h_port_stats h) = length (h_ports h)"
    by (rule parse_hosts_sum)
next
  assume "elem_find host_elem ''ports'' = None"
  then show "\<exists>h. parse_host host_elem = Inr h \<and> h_port_stats h = zero_stats \<and> h_ports h = []"
    by (simp add: parse_host_def parse_ports_def Let_def)
qed

theorem port_stats_sum_witness:
  "(\<exists>p. NmapXMLParser ''scan.xml'' (Inr sample_doc) = Inr p
        \<and> map (\<lambda>h. length (h_ports h)) (hosts p) = [4, 0]
        \<and> list_all (\<lambda>h. stats_sum (h_port_stats h) = length (h_ports h)) (hosts p))
   \<and> elem_find portless_host ''ports'' = None
   \<and> (\<exists>h. parse_host portless_host = Inr h \<and> h_port_stats h = zero_stats \<and> h_ports h = [])"
proof -
  have a: "map_sum id (\<lambda>p. map (\<lambda>h. length (h_ports h)) (hosts p))
             (NmapXMLParser ''scan.xml'' (Inr sample_doc)) = Inr [4, 0]"
    by code_simp
  then obtain p where p: "NmapXMLParser ''scan.xml'' (Inr sample_doc) = Inr p"
    and l: "map (\<lambda>h. length (h_ports h)) (hosts p) = [4, 0]"
    by (cases "NmapXMLParser ''scan.xml'' (Inr sample_doc)") auto
  have n: "elem_find portless_host ''ports'' = None"
    by code_simp
  from port_stats_sum [of "''scan.xml''" "Inr sample_doc" p portless_host] p n
  have "(\<forall>h\<in>set (hosts p). stats_sum (h_port_stats h) = length (h_ports h))"
    and "\<exists>h. parse_host portless_host = Inr h \<and> h_port_stats h = zero_stats \<and> h_ports h = []"
    by simp_all
  with p l n show ?thesis
    by (simp add: list_all_iff)
qed

subsection \<open>What parsing can raise, and what it stores\<close>

lemma py_int_error: "py_int s = Inl x \<Longrightarrow> x = ValueError s"
  by (auto simp: py_int_def Let_def split: option.splits if_splits)

lemma parse_count_ok: "count_ok e \<Longrightarrow> parse_count e = Inr (count_value e)"
  by (auto simp: count_ok_def count_value_def parse_count_def split: option.splits sum.splits)

lemma py_int_refused: "isl (py_int s) \<Longrightarrow> py_int s = Inl (ValueError s)"
  by (cases "py_int s") (auto dest: py_int_error)

lemma parse_count_refused: "\<not> count_ok e \<Longrightarrow> \<exists>s. parse_count e = Inl (ValueError s)"
  by (auto simp: count_ok_def parse_count_def split: option.splits dest: py_int_refused)

lemma parse_reasons_ok:
  "list_all count_ok rs \<Longrightarrow>
   parse_reasons rs
     = Inr (map (\<lambda>r. \<lparr>r_reason = elem_get r ''reason'' [], r_count = count_value r\<rparr>) rs)"
  by (induction rs) (simp_all add: parse_count_ok)

lemma parse_reasons_refused:
  "\<not> list_all count_ok rs \<Longrightarrow> \<exists>s. parse_reasons rs = Inl (ValueError s)"
proof (induction rs)
  case Nil
  then show ?case by simp
next
  case (Cons r rs)
  show ?case
  proof (cases "count_ok r")
    case True
    with Cons obtain s where "parse_reasons rs = Inl (ValueError s)" by auto
    with True show ?thesis by (simp add: parse_count_ok)
  next
    case False
    from parse_count_refused [OF this] show ?thesis by auto
  qed
qed

lemma parse_extraports_ok: "extraports_ok ep \<Longrightarrow> parse_extraports ep = Inr (extraports_of ep)"
  by (simp add: extraports_ok_def parse_extraports_def extraports_of_def
      parse_count_ok parse_reasons_ok)

lemma parse_extraports_refused:
  assumes "\<not> extraports_ok ep"
  shows "\<exists>s. parse_extraports ep = Inl (ValueError s)"
proof (cases "count_ok ep")
  case True
  with assms have "\<not> list_all count_ok (elem_findall ep ''extrareasons'')"
    by (simp add: extraports_ok_def)
  from parse_reasons_refused [OF this] True show ?thesis
    by (auto simp: parse_extraports_def parse_count_ok)
next
  case False
  from parse_count_refused [OF this] show ?thesis
    by (auto simp: parse_extraports_def)
qed

lemma extraports_loop_ok:
  "list_all extraports_ok eps \<Longrightarrow>
   extraports_loop eps cur = Inr (if eps = [] then cur else Some (extraports_of (last eps)))"
  by (induction eps arbitrary: cur) (simp_all add: parse_extraports_ok)

lemma extraports_loop_refused:
  "\<not> list_all extraports_ok eps \<Longrightarrow> \<exists>s. extraports_loop eps cur = Inl (ValueError s)"
proof (induction eps arbitrary: cur)
  case Nil
  then show ?case by simp
next
  case (Cons ep eps)
  show ?case
  proof (cases "extraports_ok ep")
    case True
    with Cons.prems have "\<not> list_all extraports_ok eps" by simp
    from Cons.IH [OF this] True show ?thesis by (simp add: parse_extraports_ok)
  next
    case False
    from parse_extraports_refused [OF this] show ?thesis by auto
  qed
qed

lemma foldl_add_port_ports: "fst (foldl add_port acc es) = fst acc @ map parse_port es"
  by (induction es arbitrary: acc) (simp_all add: add_port_def Let_def)

lemma parse_port_portid: "p_portid (parse_port pe) = elem_get pe ''portid'' ''unknown''"
  by (simp add: parse_port_def Let_def)

lemma parse_host_ok:
  assumes "host_counts_ok e"
  shows "\<exists>h. parse_host e = Inr h \<and> stored_as_text e h"
proof (cases "elem_find e ''ports''")
  case None
  then show ?thesis
    by (simp add: parse_host_def parse_ports_def stored_as_text_def child_elems_def Let_def
        parse_os_def comp_def split: option.splits)
next
  case (Some pe)
  with assms have "list_all extraports_ok (elem_findall pe ''extraports'')"
    by (simp add: host_counts_ok_def)
  from extraports_loop_ok [OF this, of None] Some show ?thesis
    by (simp add: parse_host_def parse_ports_def stored_as_text_def child_elems_def Let_def
        parse_os_def comp_def foldl_add_port_ports parse_port_portid split: option.splits)
qed

lemma parse_host_refused:
  assumes "\<not> host_counts_ok e"
  shows "\<exists>s. parse_host e = Inl (ValueError s)"
proof -
  from assms obtain pe where pe: "elem_find e ''ports'' = Some pe"
    and "\<not> list_all extraports_ok (elem_findall pe ''extraports'')"
    by (auto simp: host_counts_ok_def split: option.splits)
  from extraports_loop_refused [OF this(2), of None] pe show ?thesis
    by (auto simp: parse_host_def parse_ports_def Let_def)
qed

lemma parse_hosts_ok:
  "list_all host_counts_ok es \<Longrightarrow>
   \<exists>hs. parse_hosts es = Inr hs \<and> list_all2 stored_as_text es hs"
proof (induction es)
  case Nil
  then show ?case by simp
next
  case (Cons e es)
  then obtain hs where hs: "parse_hosts es = Inr hs" "list_all2 stored_as_text es hs"
    by auto
  from Cons.prems parse_host_ok [of e] obtain h where "parse_host e = Inr h" "stored_as_text e h"
    by auto
  with hs show ?case by simp
qed

lemma parse_hosts_refused:
  "\<not> list_all host_counts_ok es \<Longrightarrow> \<exists>s. parse_hosts es = Inl (ValueError s)"
proof (induction es)
  case Nil
  then show ?case by simp
next
  case (Cons e es)
  show ?case
  proof (cases "host_counts_ok e")
    case True
    with Cons.prems have "\<not> list_all host_counts_ok es" by simp
    from Cons.IH [OF this] parse_host_ok [OF True] show ?thesis by auto
  next
    case False
    from parse_host_refused [OF this] show ?thesis by auto
  qed
qed

text \<open>
  C3. The claim: parsing raises only on a document that is not well formed, and a field
  that should be numeric and is not is replaced by a sentinel. A well-formed document
  whose \<open>extraports\<close> element has the count \<open>many\<close> makes the constructor raise
  \<open>ValueError\<close>.
\<close>

theorem bad_count_counterexample:
  "NmapXMLParser ''scan.xml'' (Inr bad_count_doc) = Inl (ValueError ''many'')"
  by code_simp

text \<open>
  C3, amended. The constructor raises what \<open>ET.parse\<close> raises. On a well-formed document
  it raises \<open>ValueError\<close> when a count attribute of an \<open>extraports\<close> or \<open>extrareasons\<close>
  element is present and refused by \<open>int\<close>, and otherwise it returns the parser object
  of the file and the root, with one host for each host element, in which every port id
  and accuracy is the text of the attribute (\<open>unknown\<close> and \<open>0\<close> when missing, never
  converted), and the extra ports are those of the last \<open>extraports\<close> element, a missing
  count being 0.
\<close>

theorem parse_failures:
  "NmapXMLParser file (Inl e) = Inl e
   \<and> (counts_numeric r \<longrightarrow>
        (\<exists>p. NmapXMLParser file (Inr r) = Inr p \<and> xml_file p = file \<and> root p = r
             \<and> list_all2 stored_as_text (elem_findall r ''host'') (hosts p)))
   \<and> (\<not> counts_numeric r \<longrightarrow> (\<exists>s. NmapXMLParser file (Inr r) = Inl (ValueError s)))"
proof (intro conjI impI)
  show "NmapXMLParser file (Inl e) = Inl e"
    by (simp add: NmapXMLParser_def)
next
  assume "counts_numeric r"
  then have "list_all host_counts_ok (elem_findall r ''host'')"
    by (simp add: counts_numeric_def)
  from parse_hosts_ok [OF this]
  show "\<exists>p. NmapXMLParser file (Inr r) = Inr p \<and> xml_file p = file \<and> root p = r
             \<and> list_all2 stored_as_text (elem_findall r ''host'') (hosts p)"
    by (auto simp: NmapXMLParser_def parse_xml_def)
next
  assume "\<not> counts_numeric r"
  then have "\<not> list_all host_counts_ok (elem_findall r ''host'')"
    by (simp add: counts_numeric_def)
  from parse_hosts_refused [OF this]
  show "\<exists>s. NmapXMLParser file (Inr r) = Inl (ValueError s)"
    by (auto simp: NmapXMLParser_def parse_xml_def)
qed

theorem parse_failures_witness:
  "\<not> counts_numeric bad_count_doc
   \<and> (\<exists>s. NmapXMLParser ''scan.xml'' (Inr bad_count_doc) = Inl (ValueError s))
   \<and> counts_numeric default_count_doc
   \<and> (\<exists>p. NmapXMLParser ''scan.xml'' (Inr default_count_doc) = Inr p
          \<and> xml_file p = ''scan.xml'' \<and> root p = default_count_doc
          \<and> list_all2 stored_as_text (elem_findall default_count_doc ''host'') (hosts p))
   \<and> map_sum id (\<lambda>p. map (\<lambda>h. (map p_portid (h_ports h), map os_accuracy (h_os h),
                                  h_extraports h)) (hosts p))
        (NmapXMLParser ''scan.xml'' (Inr default_count_doc))
      = Inr [([''http''], [''0''],
              Some \<lparr>x_state = ''filtered'', x_count = 0,
                    x_reasons = [\<lparr>r_reason = ''no-responses'', r_count = 7\<rparr>]\<rparr>)]"
proof -
  have a: "\<not> counts_numeric bad_count_doc"
    by code_simp
  have b: "counts_numeric default_count_doc"
    by code_simp
  have c: "map_sum id (\<lambda>p. map (\<lambda>h. (map p_portid (h_ports h), map os_accuracy (h_os h),
                                  h_extraports h)) (hosts p))
        (NmapXMLParser ''scan.xml'' (Inr default_count_doc))
      = Inr [([''http''], [''0''],
              Some \<lparr>x_state = ''filtered'', x_count = 0,
                    x_reasons = [\<lparr>r_reason = ''no-responses'', r_count = 7\<rparr>]\<rparr>)]"
    by code_simp
  from parse_failures [of "''scan.xml''" ParseError bad_count_doc] a
  have "\<exists>s. NmapXMLParser ''scan.xml'' (Inr bad_count_doc) = Inl (ValueError s)"
    by blast
  moreover from parse_failures [of "''scan.xml''" ParseError default_count_doc] b
  have "\<exists>p. NmapXMLParser ''scan.xml'' (Inr default_count_doc) = Inr p
          \<and> xml_file p = ''scan.xml'' \<and> root p = default_count_doc
          \<and> list_all2 stored_as_text (elem_findall default_count_doc ''host'') (hosts p)"
    by blast
  ultimately show ?thesis using a b c by blast
qed

subsection \<open>Sorting with a key that may raise\<close>

lemma keys_of_Inr: "keys_of f xs = Inr ks \<Longrightarrow> map f xs = map Inr ks"
  by (induction xs arbitrary: ks) (auto split: sum.splits)

lemma keys_of_total: "list_all (\<lambda>x. \<not> isl (f x)) xs \<Longrightarrow> \<exists>ks. keys_of f xs = Inr ks"
proof (induction xs)
  case Nil
  then show ?case by simp
next
  case (Cons x xs)
  then obtain ks where "keys_of f xs = Inr ks" by auto
  moreover from Cons.prems obtain k where "f x = Inr k" by (cases "f x") auto
  ultimately show ?case by simp
qed

lemma keys_of_fails: "keys_of f xs = Inl e \<Longrightarrow> \<exists>x\<in>set xs. f x = Inl e"
  by (induction xs) (auto split: sum.splits)

lemma zip_keys:
  assumes "map f xs = map Inr ks" and "z \<in> set (zip ks xs)"
  shows "f (snd z) = Inr (fst z)"
proof -
  from assms(1) have len: "length xs = length ks"
    by (metis length_map)
  from assms(2) obtain i where i: "i < length ks" "i < length xs" "z = (ks ! i, xs ! i)"
    by (auto simp: set_zip)
  have "f (xs ! i) = map f xs ! i" using i by simp
  also have "\<dots> = Inr (ks ! i)" using assms(1) i by simp
  finally show ?thesis using i by simp
qed

lemma py_sorted_result:
  assumes "py_sorted f xs = Inr ys"
  shows "mset ys = mset xs"
    and "\<exists>ks. map f ys = map Inr ks \<and> sorted ks"
    and "filter (\<lambda>x. f x = Inr k) ys = filter (\<lambda>x. f x = Inr k) xs"
proof -
  from assms obtain ks where ks: "keys_of f xs = Inr ks"
    and ys: "ys = map snd (sort_key fst (zip ks xs))"
    by (auto simp: py_sorted_def split: sum.splits)
  have m: "map f xs = map Inr ks" by (rule keys_of_Inr [OF ks])
  then have len: "length ks = length xs" by (metis length_map)
  let ?zs = "zip ks xs"
  let ?ss = "sort_key fst ?zs"
  have key: "f (snd z) = Inr (fst z)" if "z \<in> set ?ss" for z
    using that zip_keys [OF m] by simp
  have "mset ys = image_mset snd (mset ?ss)" by (simp add: ys)
  also have "\<dots> = image_mset snd (mset ?zs)" by simp
  also have "\<dots> = mset (map snd ?zs)" by simp
  also have "\<dots> = mset xs" using len by simp
  finally show "mset ys = mset xs" .
  have "map f ys = map (\<lambda>z. f (snd z)) ?ss" by (simp add: ys comp_def)
  also have "\<dots> = map (\<lambda>z. Inr (fst z)) ?ss" using key by (simp cong: map_cong)
  also have "\<dots> = map Inr (map fst ?ss)" by (simp add: comp_def)
  finally have "map f ys = map Inr (map fst ?ss)" .
  moreover have "sorted (map fst ?ss)" by (rule sorted_sort_key)
  ultimately show "\<exists>ks. map f ys = map Inr ks \<and> sorted ks" by blast
  have "filter (\<lambda>x. f x = Inr k) ys = map snd (filter (\<lambda>z. f (snd z) = Inr k) ?ss)"
    by (simp add: ys filter_map comp_def)
  also have "filter (\<lambda>z. f (snd z) = Inr k) ?ss = filter (\<lambda>z. fst z = k) ?ss"
    using key by (auto intro: filter_cong)
  also have "\<dots> = filter (\<lambda>z. fst z = k) ?zs" by (rule sort_key_stable)
  also have "\<dots> = filter (\<lambda>z. f (snd z) = Inr k) ?zs"
    using zip_keys [OF m] by (auto intro: filter_cong)
  also have "map snd \<dots> = filter (\<lambda>x. f x = Inr k) (map snd ?zs)"
    by (simp add: filter_map comp_def)
  also have "\<dots> = filter (\<lambda>x. f x = Inr k) xs" using len by simp
  finally show "filter (\<lambda>x. f x = Inr k) ys = filter (\<lambda>x. f x = Inr k) xs" .
qed

lemma py_sorted_total:
  "list_all (\<lambda>x. \<not> isl (f x)) xs \<Longrightarrow> \<exists>ys. py_sorted f xs = Inr ys"
  using keys_of_total [of f xs] by (auto simp: py_sorted_def)

lemma py_sorted_listing:
  assumes "list_all (\<lambda>p. \<not> isl (port_key p)) xs"
  shows "\<exists>ys. py_sorted port_key xs = Inr ys \<and> sorted_listing xs ys"
proof -
  from py_sorted_total [OF assms] obtain ys where ys: "py_sorted port_key xs = Inr ys" ..
  from py_sorted_result [OF ys] have "sorted_listing xs ys"
    unfolding sorted_listing_def by blast
  with ys show ?thesis by blast
qed

lemma sorted_listing_Nil: "sorted_listing src out \<Longrightarrow> (out = []) = (src = [])"
  by (metis mset_zero_iff sorted_listing_def)

lemma sorted_listing_length: "sorted_listing src out \<Longrightarrow> length out = length src"
  by (metis size_mset sorted_listing_def)

subsection \<open>The port listings of a host\<close>

lemma numeric_filter:
  "list_all (\<lambda>p. \<not> isl (port_key p)) (h_ports h) \<Longrightarrow>
   list_all (\<lambda>p. \<not> isl (port_key p)) (ports_in_state s h)"
  by (simp add: ports_in_state_def list_all_iff)

lemma open_ports_lines_sorted:
  assumes "py_sorted port_key (ports_in_state ''open'' h) = Inr ops"
    and "sorted_listing (ports_in_state ''open'' h) ops"
  shows "open_ports_lines h =
           Inr (if ops = [] then []
                else (CHR 0x0A # ''OPEN PORTS ('' @ str_nat (length ops) @ ''):'')
                     # map format_port ops)"
  using assms sorted_listing_Nil [OF assms(2)] sorted_listing_length [OF assms(2)]
  by (simp add: open_ports_lines_def Let_def)

lemma filtered_ports_lines_sorted:
  assumes "py_sorted port_key (ports_in_state ''filtered'' h) = Inr fps"
    and "sorted_listing (ports_in_state ''filtered'' h) fps"
  shows "filtered_ports_lines h =
           Inr (if fps = [] then []
                else (CHR 0x0A # ''FILTERED PORTS ('' @ str_nat (length fps) @ ''):'')
                     # map format_port (take 10 fps)
                     @ (if 10 < length fps
                        then [''  ... and '' @ str_nat (length fps - 10) @ '' more filtered ports'']
                        else []))"
  using assms sorted_listing_Nil [OF assms(2)] sorted_listing_length [OF assms(2)]
  by (simp add: filtered_ports_lines_def Let_def)

lemma closed_ports_lines_sorted:
  assumes "py_sorted port_key (ports_in_state ''closed'' h) = Inr cps"
    and "sorted_listing (ports_in_state ''closed'' h) cps"
  shows "closed_ports_lines h =
           Inr (if cps = [] then []
                else if length cps \<le> 10
                then (CHR 0x0A # ''CLOSED PORTS ('' @ str_nat (length cps) @ ''):'')
                     # map format_port cps
                else [CHR 0x0A # ''CLOSED PORTS: '' @ str_nat (length cps) @ '' ports closed''])"
  using assms sorted_listing_Nil [OF assms(2)] sorted_listing_length [OF assms(2)]
  by (simp add: closed_ports_lines_def Let_def)

lemma closed_ports_lines_many:
  assumes "10 < length (ports_in_state ''closed'' h)"
  shows "closed_ports_lines h =
           Inr [CHR 0x0A # ''CLOSED PORTS: '' @ str_nat (length (ports_in_state ''closed'' h))
                @ '' ports closed'']"
  using assms by (auto simp: closed_ports_lines_def Let_def)

lemma format_host_blocks:
  assumes "open_ports_lines h = Inr ols" and "filtered_ports_lines h = Inr fls"
    and "closed_ports_lines h = Inr cls"
  shows "format_host upper h i =
           (case host_tail_lines h of
              Inl e \<Rightarrow> Inl e
            | Inr tail_lines \<Rightarrow> Inr (host_head_lines upper h i @ ols @ fls @ cls @ tail_lines))"
  by (simp add: format_host_def assms)

text \<open>
  C7. For a host whose port ids are all numeric, the open ports block lists all the open
  ports in ascending order of port number, equal numbers in their original order; the
  filtered ports block lists the first ten filtered ports of the same ordering, followed
  by one line \<open>... and N more filtered ports\<close> exactly when there are more than ten; and
  the report of the host is its head lines, these two blocks, the closed ports block
  and the last lines, unless writing out the count of the extra ports raises.
\<close>

theorem open_filtered_listing:
  assumes "list_all (\<lambda>p. \<not> isl (port_key p)) (h_ports h)"
  shows "\<exists>ops fps cls.
           sorted_listing (ports_in_state ''open'' h) ops
         \<and> sorted_listing (ports_in_state ''filtered'' h) fps
         \<and> open_ports_lines h = Inr (if ops = [] then []
                else (CHR 0x0A # ''OPEN PORTS ('' @ str_nat (length ops) @ ''):'')
                     # map format_port ops)
         \<and> filtered_ports_lines h = Inr (if fps = [] then []
                else (CHR 0x0A # ''FILTERED PORTS ('' @ str_nat (length fps) @ ''):'')
                     # map format_port (take 10 fps)
                     @ (if 10 < length fps
                        then [''  ... and '' @ str_nat (length fps - 10) @ '' more filtered ports'']
                        else []))
         \<and> closed_ports_lines h = Inr cls
         \<and> format_host upper h i =
             (case host_tail_lines h of
                Inl e \<Rightarrow> Inl e
              | Inr tail_lines \<Rightarrow>
                  Inr (host_head_lines upper h i
                       @ (if ops = [] then []
                else (CHR 0x0A # ''OPEN PORTS ('' @ str_nat (length ops) @ ''):'')
                     # map format_port ops)
                       @ (if fps = [] then []
                else (CHR 0x0A # ''FILTERED PORTS ('' @ str_nat (length fps) @ ''):'')
                     # map format_port (take 10 fps)
                     @ (if 10 < length fps
                        then [''  ... and '' @ str_nat (length fps - 10) @ '' more filtered ports'']
                        else []))
                       @ cls @ tail_lines))"
proof -
  from py_sorted_listing [OF numeric_filter [OF assms]] obtain ops where
    ops: "py_sorted port_key (ports_in_state ''open'' h) = Inr ops"
         "sorted_listing (ports_in_state ''open'' h) ops"
    by blast
  from py_sorted_listing [OF numeric_filter [OF assms]] obtain fps where
    fps: "py_sorted port_key (ports_in_state ''filtered'' h) = Inr fps"
         "sorted_listing (ports_in_state ''filtered'' h) fps"
    by blast
  from py_sorted_listing [OF numeric_filter [OF assms]] obtain cps where
    cps: "py_sorted port_key (ports_in_state ''closed'' h) = Inr cps"
         "sorted_listing (ports_in_state ''closed'' h) cps"
    by blast
  note o = open_ports_lines_sorted [OF ops]
  note f = filtered_ports_lines_sorted [OF fps]
  note c = closed_ports_lines_sorted [OF cps]
  from ops(2) fps(2) o f c format_host_blocks [OF o f c, of upper i]
  show ?thesis by blast
qed

theorem open_filtered_listing_witness:
  "\<forall>upper.
     list_all (\<lambda>p. \<not> isl (port_key p)) (h_ports listing_host)
   \<and> (\<exists>ops fps cls.
           sorted_listing (ports_in_state ''open'' listing_host) ops
         \<and> sorted_listing (ports_in_state ''filtered'' listing_host) fps
         \<and> open_ports_lines listing_host = Inr (if ops = [] then []
                else (CHR 0x0A # ''OPEN PORTS ('' @ str_nat (length ops) @ ''):'')
                     # map format_port ops)
         \<and> filtered_ports_lines listing_host = Inr (if fps = [] then []
                else (CHR 0x0A # ''FILTERED PORTS ('' @ str_nat (length fps) @ ''):'')
                     # map format_port (take 10 fps)
                     @ (if 10 < length fps
                        then [''  ... and '' @ str_nat (length fps - 10) @ '' more filtered ports'']
                        else []))
         \<and> closed_ports_lines listing_host = Inr cls
         \<and> format_host upper listing_host 1 =
             (case host_tail_lines listing_host of
                Inl e \<Rightarrow> Inl e
              | Inr tail_lines \<Rightarrow>
                  Inr (host_head_lines upper listing_host 1
                       @ (if ops = [] then []
                else (CHR 0x0A # ''OPEN PORTS ('' @ str_nat (length ops) @ ''):'')
                     # map format_port ops)
                       @ (if fps = [] then []
                else (CHR 0x0A # ''FILTERED PORTS ('' @ str_nat (length fps) @ ''):'')
                     # map format_port (take 10 fps)
                     @ (if 10 < length fps
                        then [''  ... and '' @ str_nat (length fps - 10) @ '' more filtered ports'']
                        else []))
                       @ cls @ tail_lines)))
   \<and> map_sum id (drop 6) (format_host upper listing_host 1) =
       Inr [CHR 0x0A # ''OPEN PORTS (3):'',
            ''  22/udp open     unknown        '',
            ''  22/tcp open     unknown        '',
            ''  443/tcp open     unknown        '',
            CHR 0x0A # ''FILTERED PORTS (12):'',
            ''  101/tcp filtered unknown        '',
            ''  102/tcp filtered unknown        '',
            ''  103/tcp filtered unknown        '',
            ''  104/tcp filtered unknown        '',
            ''  105/tcp filtered unknown        '',
            ''  106/tcp filtered unknown        '',
            ''  107/tcp filtered unknown        '',
            ''  108/tcp filtered unknown        '',
            ''  109/tcp filtered unknown        '',
            ''  110/tcp filtered unknown        '',
            ''  ... and 2 more filtered ports'',
            CHR 0x0A # ''CLOSED PORTS (1):'',
            ''  25/tcp closed   unknown        '']"
proof
  fix upper :: "string \<Rightarrow> string"
  have h: "list_all (\<lambda>p. \<not> isl (port_key p)) (h_ports listing_host)"
    by code_simp
  have v: "map_sum id (drop 6) (format_host upper listing_host 1) =
       Inr [CHR 0x0A # ''OPEN PORTS (3):'',
            ''  22/udp open     unknown        '',
            ''  22/tcp open     unknown        '',
            ''  443/tcp open     unknown        '',
            CHR 0x0A # ''FILTERED PORTS (12):'',
            ''  101/tcp filtered unknown        '',
            ''  102/tcp filtered unknown        '',
            ''  103/tcp filtered unknown        '',
            ''  104/tcp filtered unknown        '',
            ''  105/tcp filtered unknown        '',
            ''  106/tcp filtered unknown        '',
            ''  107/tcp filtered unknown        '',
            ''  108/tcp filtered unknown        '',
            ''  109/tcp filtered unknown        '',
            ''  110/tcp filtered unknown        '',
            ''  ... and 2 more filtered ports'',
            CHR 0x0A # ''CLOSED PORTS (1):'',
            ''  25/tcp closed   unknown        '']"
    by code_simp
  from h open_filtered_listing [OF h, of upper 1] v
  show "list_all (\<lambda>p. \<not> isl (port_key p)) (h_ports listing_host)
   \<and> (\<exists>ops fps cls.
           sorted_listing (ports_in_state ''open'' listing_host) ops
         \<and> sorted_listing (ports_in_state ''filtered'' listing_host) fps
         \<and> open_ports_lines listing_host = Inr (if ops = [] then []
                else (CHR 0x0A # ''OPEN PORTS ('' @ str_nat (length ops) @ ''):'')
                     # map format_port ops)
         \<and> filtered_ports_lines listing_host = Inr (if fps = [] then []
                else (CHR 0x0A # ''FILTERED PORTS ('' @ str_nat (length fps) @ ''):'')
                     # map format_port (take 10 fps)
                     @ (if 10 < length fps
                        then [''  ... and '' @ str_nat (length fps - 10) @ '' more filtered ports'']
                        else []))
         \<and> closed_ports_lines listing_host = Inr cls
         \<and> format_host upper listing_host 1 =
             (case host_tail_lines listing_host of
                Inl e \<Rightarrow> Inl e
              | Inr tail_lines \<Rightarrow>
                  Inr (host_head_lines upper listing_host 1
                       @ (if ops = [] then []
                else (CHR 0x0A # ''OPEN PORTS ('' @ str_nat (length ops) @ ''):'')
                     # map format_port ops)
                       @ (if fps = [] then []
                else (CHR 0x0A # ''FILTERED PORTS ('' @ str_nat (length fps) @ ''):'')
                     # map format_port (take 10 fps)
                     @ (if 10 < length fps
                        then [''  ... and '' @ str_nat (length fps - 10) @ '' more filtered ports'']
                        else []))
                       @ cls @ tail_lines)))
   \<and> map_sum id (drop 6) (format_host upper listing_host 1) =
       Inr [CHR 0x0A # ''OPEN PORTS (3):'',
            ''  22/udp open     unknown        '',
            ''  22/tcp open     unknown        '',
            ''  443/tcp open     unknown        '',
            CHR 0x0A # ''FILTERED PORTS (12):'',
            ''  101/tcp filtered unknown        '',
            ''  102/tcp filtered unknown        '',
            ''  103/tcp filtered unknown        '',
            ''  104/tcp filtered unknown        '',
            ''  105/tcp filtered unknown        '',
            ''  106/tcp filtered unknown        '',
            ''  107/tcp filtered unknown        '',
            ''  108/tcp filtered unknown        '',
            ''  109/tcp filtered unknown        '',
            ''  110/tcp filtered unknown        '',
            ''  ... and 2 more filtered ports'',
            CHR 0x0A # ''CLOSED PORTS (1):'',
            ''  25/tcp closed   unknown        '']"
    by blast
qed

text \<open>
  C8. The claim: for every host, at most ten closed ports are each rendered, sorted, and
  more than ten are rendered as a count only. A host parsed from a host element whose
  single closed port has no \<open>portid\<close> has one closed port, and rendering it raises
  \<open>ValueError\<close>: the port id \<open>unknown\<close> is the sort key.
\<close>

theorem closed_unnumbered_counterexample:
  "\<forall>upper.
     map_sum id (\<lambda>h. map (\<lambda>p. (p_state p, p_portid p)) (h_ports h))
       (parse_host unnumbered_closed_host) = Inr [(''closed'', ''unknown'')]
   \<and> (case parse_host unnumbered_closed_host of
         Inl e \<Rightarrow> Inl e
       | Inr h \<Rightarrow> format_host upper h 1) = Inl (ValueError ''unknown'')"
proof
  fix upper :: "string \<Rightarrow> string"
  show "map_sum id (\<lambda>h. map (\<lambda>p. (p_state p, p_portid p)) (h_ports h))
       (parse_host unnumbered_closed_host) = Inr [(''closed'', ''unknown'')]
   \<and> (case parse_host unnumbered_closed_host of
         Inl e \<Rightarrow> Inl e
       | Inr h \<Rightarrow> format_host upper h 1) = Inl (ValueError ''unknown'')"
    by code_simp
qed

text \<open>
  C8, amended. For a host whose open and filtered port ids are numeric and whose closed
  port ids are numeric unless there are more than ten of them: with at most ten closed
  ports the closed ports block lists each of them, in ascending order of port number;
  with more than ten it is the single line with their count; and the report of the
  host is its head lines, the open and filtered blocks, this block and the last lines,
  unless writing out the count of the extra ports raises.
\<close>

theorem closed_ports_policy:
  assumes "list_all (\<lambda>p. \<not> isl (port_key p)) (ports_in_state ''open'' h)"
    and "list_all (\<lambda>p. \<not> isl (port_key p)) (ports_in_state ''filtered'' h)"
    and "10 < length (ports_in_state ''closed'' h)
         \<or> list_all (\<lambda>p. \<not> isl (port_key p)) (ports_in_state ''closed'' h)"
  shows "\<exists>ols fls cps.
           open_ports_lines h = Inr ols
         \<and> filtered_ports_lines h = Inr fls
         \<and> (length (ports_in_state ''closed'' h) \<le> 10
              \<longrightarrow> sorted_listing (ports_in_state ''closed'' h) cps)
         \<and> closed_ports_lines h = Inr (if ports_in_state ''closed'' h = [] then []
                else if length (ports_in_state ''closed'' h) \<le> 10
                then (CHR 0x0A # ''CLOSED PORTS (''
                        @ str_nat (length (ports_in_state ''closed'' h)) @ ''):'')
                     # map format_port cps
                else [CHR 0x0A # ''CLOSED PORTS: ''
                        @ str_nat (length (ports_in_state ''closed'' h)) @ '' ports closed''])
         \<and> format_host upper h i =
             (case host_tail_lines h of
                Inl e \<Rightarrow> Inl e
              | Inr tail_lines \<Rightarrow>
                  Inr (host_head_lines upper h i @ ols @ fls
                       @ (if ports_in_state ''closed'' h = [] then []
                else if length (ports_in_state ''closed'' h) \<le> 10
                then (CHR 0x0A # ''CLOSED PORTS (''
                        @ str_nat (length (ports_in_state ''closed'' h)) @ ''):'')
                     # map format_port cps
                else [CHR 0x0A # ''CLOSED PORTS: ''
                        @ str_nat (length (ports_in_state ''closed'' h)) @ '' ports closed''])
                       @ tail_lines))"
proof -
  from py_sorted_listing [OF assms(1)] obtain ops where
    ops: "py_sorted port_key (ports_in_state ''open'' h) = Inr ops"
         "sorted_listing (ports_in_state ''open'' h) ops"
    by blast
  from py_sorted_listing [OF assms(2)] obtain fps where
    fps: "py_sorted port_key (ports_in_state ''filtered'' h) = Inr fps"
         "sorted_listing (ports_in_state ''filtered'' h) fps"
    by blast
  note o = open_ports_lines_sorted [OF ops]
  note f = filtered_ports_lines_sorted [OF fps]
  show ?thesis
  proof (cases "10 < length (ports_in_state ''closed'' h)")
    case True
    then have ne: "ports_in_state ''closed'' h \<noteq> []" by auto
    have c: "closed_ports_lines h = Inr (if ports_in_state ''closed'' h = [] then []
                else if length (ports_in_state ''closed'' h) \<le> 10
                then (CHR 0x0A # ''CLOSED PORTS (''
                        @ str_nat (length (ports_in_state ''closed'' h)) @ ''):'')
                     # map format_port cps
                else [CHR 0x0A # ''CLOSED PORTS: ''
                        @ str_nat (length (ports_in_state ''closed'' h)) @ '' ports closed''])" for cps
      using True ne closed_ports_lines_many [OF True] by simp
    from o f True c format_host_blocks [OF o f c, of upper i]
    show ?thesis by auto
  next
    case False
    with assms(3) have "list_all (\<lambda>p. \<not> isl (port_key p)) (ports_in_state ''closed'' h)"
      by simp
    from py_sorted_listing [OF this] obtain cps where
      cps: "py_sorted port_key (ports_in_state ''closed'' h) = Inr cps"
           "sorted_listing (ports_in_state ''closed'' h) cps"
      by blast
    have c: "closed_ports_lines h = Inr (if ports_in_state ''closed'' h = [] then []
                else if length (ports_in_state ''closed'' h) \<le> 10
                then (CHR 0x0A # ''CLOSED PORTS (''
                        @ str_nat (length (ports_in_state ''closed'' h)) @ ''):'')
                     # map format_port cps
                else [CHR 0x0A # ''CLOSED PORTS: ''
                        @ str_nat (length (ports_in_state ''closed'' h)) @ '' ports closed''])"
      using closed_ports_lines_sorted [OF cps] False
        sorted_listing_Nil [OF cps(2)] sorted_listing_length [OF cps(2)]
      by auto
    from o f cps(2) c format_host_blocks [OF o f c, of upper i]
    show ?thesis by blast
  qed
qed

theorem closed_ports_policy_witness:
  "\<forall>upper.
     list_all (\<lambda>p. \<not> isl (port_key p)) (ports_in_state ''open'' many_closed_host)
   \<and> list_all (\<lambda>p. \<not> isl (port_key p)) (ports_in_state ''filtered'' many_closed_host)
   \<and> 10 < length (ports_in_state ''closed'' many_closed_host)
   \<and> \<not> list_all (\<lambda>p. \<not> isl (port_key p)) (ports_in_state ''closed'' many_closed_host)
   \<and> (\<exists>ols fls cps.
           open_ports_lines many_closed_host = Inr ols
         \<and> filtered_ports_lines many_closed_host = Inr fls
         \<and> closed_ports_lines many_closed_host = Inr (if ports_in_state ''closed'' many_closed_host = [] then []
                else if length (ports_in_state ''closed'' many_closed_host) \<le> 10
                then (CHR 0x0A # ''CLOSED PORTS (''
                        @ str_nat (length (ports_in_state ''closed'' many_closed_host)) @ ''):'')
                     # map format_port cps
                else [CHR 0x0A # ''CLOSED PORTS: ''
                        @ str_nat (length (ports_in_state ''closed'' many_closed_host)) @ '' ports closed''])
         \<and> format_host upper many_closed_host 1 =
             (case host_tail_lines many_closed_host of
                Inl e \<Rightarrow> Inl e
              | Inr tail_lines \<Rightarrow>
                  Inr (host_head_lines upper many_closed_host 1 @ ols @ fls
                       @ (if ports_in_state ''closed'' many_closed_host = [] then []
                else if length (ports_in_state ''closed'' many_closed_host) \<le> 10
                then (CHR 0x0A # ''CLOSED PORTS (''
                        @ str_nat (length (ports_in_state ''closed'' many_closed_host)) @ ''):'')
                     # map format_port cps
                else [CHR 0x0A # ''CLOSED PORTS: ''
                        @ str_nat (length (ports_in_state ''closed'' many_closed_host)) @ '' ports closed''])
                       @ tail_lines)))
   \<and> map_sum id (drop 6) (format_host upper many_closed_host 1) =
       Inr [CHR 0x0A # ''OPEN PORTS (1):'', ''  80/tcp open     unknown        '',
            CHR 0x0A # ''CLOSED PORTS: 11 ports closed'']"
proof
  fix upper :: "string \<Rightarrow> string"
  have o: "list_all (\<lambda>p. \<not> isl (port_key p)) (ports_in_state ''open'' many_closed_host)"
    by code_simp
  have f: "list_all (\<lambda>p. \<not> isl (port_key p)) (ports_in_state ''filtered'' many_closed_host)"
    by code_simp
  have c: "10 < length (ports_in_state ''closed'' many_closed_host)"
    by code_simp
  have n: "\<not> list_all (\<lambda>p. \<not> isl (port_key p)) (ports_in_state ''closed'' many_closed_host)"
    by code_simp
  have v: "map_sum id (drop 6) (format_host upper many_closed_host 1) =
       Inr [CHR 0x0A # ''OPEN PORTS (1):'', ''  80/tcp open     unknown        '',
            CHR 0x0A # ''CLOSED PORTS: 11 ports closed'']"
    by code_simp
  from closed_ports_policy [OF o f disjI1 [OF c], of upper 1]
  have "\<exists>ols fls cps.
           open_ports_lines many_closed_host = Inr ols
         \<and> filtered_ports_lines many_closed_host = Inr fls
         \<and> closed_ports_lines many_closed_host = Inr (if ports_in_state ''closed'' many_closed_host = [] then []
                else if length (ports_in_state ''closed'' many_closed_host) \<le> 10
                then (CHR 0x0A # ''CLOSED PORTS (''
                        @ str_nat (length (ports_in_state ''closed'' many_closed_host)) @ ''):'')
                     # map format_port cps
                else [CHR 0x0A # ''CLOSED PORTS: ''
                        @ str_nat (length (ports_in_state ''closed'' many_closed_host)) @ '' ports closed''])
         \<and> format_host upper many_closed_host 1 =
             (case host_tail_lines many_closed_host of
                Inl e \<Rightarrow> Inl e
              | Inr tail_lines \<Rightarrow>
                  Inr (host_head_lines upper many_closed_host 1 @ ols @ fls
                       @ (if ports_in_state ''closed'' many_closed_host = [] then []
                else if length (ports_in_state ''closed'' many_closed_host) \<le> 10
                then (CHR 0x0A # ''CLOSED PORTS (''
                        @ str_nat (length (ports_in_state ''closed'' many_closed_host)) @ ''):'')
                     # map format_port cps
                else [CHR 0x0A # ''CLOSED PORTS: ''
                        @ str_nat (length (ports_in_state ''closed'' many_closed_host)) @ '' ports closed''])
                       @ tail_lines))"
    by blast
  with o f c n v
  show "list_all (\<lambda>p. \<not> isl (port_key p)) (ports_in_state ''open'' many_closed_host)
   \<and> list_all (\<lambda>p. \<not> isl (port_key p)) (ports_in_state ''filtered'' many_closed_host)
   \<and> 10 < length (ports_in_state ''closed'' many_closed_host)
   \<and> \<not> list_all (\<lambda>p. \<not> isl (port_key p)) (ports_in_state ''closed'' many_closed_host)
   \<and> (\<exists>ols fls cps.
           open_ports_lines many_closed_host = Inr ols
         \<and> filtered_ports_lines many_closed_host = Inr fls
         \<and> closed_ports_lines many_closed_host = Inr (if ports_in_state ''closed'' many_closed_host = [] then []
                else if length (ports_in_state ''closed'' many_closed_host) \<le> 10
                then (CHR 0x0A # ''CLOSED PORTS (''
                        @ str_nat (length (ports_in_state ''closed'' many_closed_host)) @ ''):'')
                     # map format_port cps
                else [CHR 0x0A # ''CLOSED PORTS: ''
                        @ str_nat (length (ports_in_state ''closed'' many_closed_host)) @ '' ports closed''])
         \<and> format_host upper many_closed_host 1 =
             (case host_tail_lines many_closed_host of
                Inl e \<Rightarrow> Inl e
              | Inr tail_lines \<Rightarrow>
                  Inr (host_head_lines upper many_closed_host 1 @ ols @ fls
                       @ (if ports_in_state ''closed'' many_closed_host = [] then []
                else if length (ports_in_state ''closed'' many_closed_host) \<le> 10
                then (CHR 0x0A # ''CLOSED PORTS (''
                        @ str_nat (length (ports_in_state ''closed'' many_closed_host)) @ ''):'')
                     # map format_port cps
                else [CHR 0x0A # ''CLOSED PORTS: ''
                        @ str_nat (length (ports_in_state ''closed'' many_closed_host)) @ '' ports closed''])
                       @ tail_lines)))
   \<and> map_sum id (drop 6) (format_host upper many_closed_host 1) =
       Inr [CHR 0x0A # ''OPEN PORTS (1):'', ''  80/tcp open     unknown        '',
            CHR 0x0A # ''CLOSED PORTS: 11 ports closed'']"
    by blast
qed

subsection \<open>Rendering and the clock\<close>

lemma both_results:
  assumes "\<not> isl x" and "(case x of Inl e \<Rightarrow> Inl e | Inr p \<Rightarrow> g p) = v"
  shows "\<exists>p. x = Inr p \<and> g p = v"
  using assms by (cases x) auto

lemma result_with:
  assumes "\<not> isl x" and "case x of Inl e \<Rightarrow> False | Inr p \<Rightarrow> P p"
  shows "\<exists>p. x = Inr p \<and> P p"
  using assms by (cases x) auto

text \<open>
  A report is the banner, the clock reading, the line of the file name and a rest that
  no clock reading enters.
\<close>

lemma build_report_shape:
  assumes "format_hosts upper (hosts p) 1 = Inr host_lines"
  shows "\<exists>rest. \<forall>now. build_report upper now p =
           Inr (report_banner @ strftime now @ CHR 0x0A # ''XML File: '' @ xml_file p @ rest)"
proof -
  define more where "more =
     [''SCAN INFORMATION'',
      replicate 80 CHR ''-'',
      ''Nmap Version: '' @ elem_get (root p) ''version'' ''N/A'',
      ''Command: '' @ elem_get (root p) ''args'' ''N/A'',
      ''Total Hosts: '' @ str_nat (length (hosts p)),
      []]
     @ host_lines @ format_summary (hosts p) @ [replicate 80 CHR ''='']"
  have ne: "more = ''SCAN INFORMATION'' # tl more"
    by (simp add: more_def)
  have "build_report upper now p =
          Inr (report_banner @ strftime now @ CHR 0x0A # ''XML File: '' @ xml_file p
               @ CHR 0x0A # CHR 0x0A # join [CHR 0x0A] more)" for now
  proof -
    have "build_report upper now p =
            Inr (join [CHR 0x0A]
                   (replicate 80 CHR ''='' # ''NMAP SCAN REPORT'' # replicate 80 CHR ''=''
                    # (''Generated: '' @ strftime now) # (''XML File: '' @ xml_file p) # []
                    # more))"
      using assms by (simp add: build_report_def more_def)
    also have "join [CHR 0x0A]
                   (replicate 80 CHR ''='' # ''NMAP SCAN REPORT'' # replicate 80 CHR ''=''
                    # (''Generated: '' @ strftime now) # (''XML File: '' @ xml_file p) # []
                    # more)
               = report_banner @ strftime now @ CHR 0x0A # ''XML File: '' @ xml_file p
                 @ CHR 0x0A # CHR 0x0A # join [CHR 0x0A] more"
      by (subst (2) ne, subst (1) ne) (simp add: report_banner_def)
    finally show ?thesis .
  qed
  then show ?thesis by blast
qed

lemma build_report_raises:
  "format_hosts upper (hosts p) 1 = Inl e \<Longrightarrow> build_report upper now p = Inl e"
  by (simp add: build_report_def)

text \<open>
  C1. The claim: rendering the same model twice gives the same text. The report holds
  the line \<open>Generated:\<close> with the clock reading of the call, so the same parser object
  rendered at two different seconds gives two different texts.
\<close>

theorem render_twice_counterexample:
  "\<forall>upper.
     NmapXMLParser ''scan.xml'' (Inr empty_doc) = Inr empty_scan
   \<and> build_report upper nine_oclock empty_scan \<noteq> build_report upper a_second_later empty_scan"
proof
  fix upper :: "string \<Rightarrow> string"
  show "NmapXMLParser ''scan.xml'' (Inr empty_doc) = Inr empty_scan
   \<and> build_report upper nine_oclock empty_scan \<noteq> build_report upper a_second_later empty_scan"
    by code_simp
qed

text \<open>
  C1, amended. Two renderings of the same model either raise the same exception or
  return two texts that are the same but for the clock reading in the \<open>Generated:\<close>
  line; so the two results are equal exactly when the two clock readings are written
  the same (they fall in the same second) or the rendering raises.
\<close>

theorem render_clock:
  "((\<exists>e. build_report upper t1 p = Inl e \<and> build_report upper t2 p = Inl e)
    \<or> (\<exists>rest.
          build_report upper t1 p =
            Inr (report_banner @ strftime t1 @ CHR 0x0A # ''XML File: '' @ xml_file p @ rest)
        \<and> build_report upper t2 p =
            Inr (report_banner @ strftime t2 @ CHR 0x0A # ''XML File: '' @ xml_file p @ rest)))
   \<and> (build_report upper t1 p = build_report upper t2 p
        \<longleftrightarrow> strftime t1 = strftime t2 \<or> isl (build_report upper t1 p))"
proof (cases "format_hosts upper (hosts p) 1")
  case (Inl e)
  from build_report_raises [OF this] show ?thesis by simp
next
  case (Inr host_lines)
  from build_report_shape [OF this] obtain rest where
    r: "\<And>now. build_report upper now p =
           Inr (report_banner @ strftime now @ CHR 0x0A # ''XML File: '' @ xml_file p @ rest)"
    by blast
  have "(\<exists>rest.
          build_report upper t1 p =
            Inr (report_banner @ strftime t1 @ CHR 0x0A # ''XML File: '' @ xml_file p @ rest)
        \<and> build_report upper t2 p =
            Inr (report_banner @ strftime t2 @ CHR 0x0A # ''XML File: '' @ xml_file p @ rest))"
    using r by blast
  moreover have "build_report upper t1 p = build_report upper t2 p
        \<longleftrightarrow> strftime t1 = strftime t2 \<or> isl (build_report upper t1 p)"
    by (simp add: r)
  ultimately show ?thesis by blast
qed

theorem render_clock_witness:
  "\<forall>upper.
     (\<exists>p. NmapXMLParser ''scan.xml'' (Inr sample_doc) = Inr p
        \<and> length (hosts p) = 2
        \<and> \<not> isl (build_report upper nine_oclock p)
        \<and> build_report upper nine_oclock p = build_report upper a_moment_later p
        \<and> build_report upper nine_oclock p \<noteq> build_report upper a_second_later p)
   \<and> (\<exists>p. NmapXMLParser ''scan.xml'' (Inr (odd_port_doc [(''protocol'', ''tcp'')] ''open'')) = Inr p
        \<and> build_report upper nine_oclock p = Inl (ValueError ''unknown'')
        \<and> build_report upper nine_oclock p = build_report upper a_second_later p)
   \<and> strftime nine_oclock = ''2026-11-04 09:00:00''
   \<and> strftime a_moment_later = ''2026-11-04 09:00:00''
   \<and> strftime a_second_later = ''2026-11-04 09:00:01''"
proof
  fix upper :: "string \<Rightarrow> string"
  have s1: "strftime nine_oclock = ''2026-11-04 09:00:00''"
    by code_simp
  have s2: "strftime a_moment_later = ''2026-11-04 09:00:00''"
    using s1 by (simp add: strftime_def nine_oclock_def a_moment_later_def)
  have s3: "strftime a_second_later = ''2026-11-04 09:00:01''"
    by code_simp
  have "\<exists>p. NmapXMLParser ''scan.xml'' (Inr sample_doc) = Inr p
          \<and> (length (hosts p) = 2 \<and> \<not> isl (build_report upper nine_oclock p))"
    by (rule result_with) code_simp+
  then obtain p where p: "NmapXMLParser ''scan.xml'' (Inr sample_doc) = Inr p"
    "length (hosts p) = 2" "\<not> isl (build_report upper nine_oclock p)"
    by blast
  from render_clock [of upper nine_oclock p a_moment_later] s1 s2
  have e1: "build_report upper nine_oclock p = build_report upper a_moment_later p"
    by simp
  from render_clock [of upper nine_oclock p a_second_later] p(3) s1 s3
  have e2: "build_report upper nine_oclock p \<noteq> build_report upper a_second_later p"
    by simp
  from p e1 e2
  have a: "\<exists>p. NmapXMLParser ''scan.xml'' (Inr sample_doc) = Inr p
        \<and> length (hosts p) = 2
        \<and> \<not> isl (build_report upper nine_oclock p)
        \<and> build_report upper nine_oclock p = build_report upper a_moment_later p
        \<and> build_report upper nine_oclock p \<noteq> build_report upper a_second_later p"
    by blast
  have "\<exists>q. NmapXMLParser ''scan.xml'' (Inr (odd_port_doc [(''protocol'', ''tcp'')] ''open'')) = Inr q
          \<and> build_report upper nine_oclock q = Inl (ValueError ''unknown'')"
    by (rule both_results) code_simp+
  then obtain q where
    q: "NmapXMLParser ''scan.xml'' (Inr (odd_port_doc [(''protocol'', ''tcp'')] ''open'')) = Inr q"
    "build_report upper nine_oclock q = Inl (ValueError ''unknown'')"
    by blast
  have "isl (build_report upper nine_oclock q)"
    by (simp add: q(2))
  with render_clock [of upper nine_oclock q a_second_later]
  have e3: "build_report upper nine_oclock q = build_report upper a_second_later q"
    by blast
  from q e3
  have b: "\<exists>p. NmapXMLParser ''scan.xml'' (Inr (odd_port_doc [(''protocol'', ''tcp'')] ''open'')) = Inr p
        \<and> build_report upper nine_oclock p = Inl (ValueError ''unknown'')
        \<and> build_report upper nine_oclock p = build_report upper a_second_later p"
    by blast
  from a b s1 s2 s3
  show "(\<exists>p. NmapXMLParser ''scan.xml'' (Inr sample_doc) = Inr p
        \<and> length (hosts p) = 2
        \<and> \<not> isl (build_report upper nine_oclock p)
        \<and> build_report upper nine_oclock p = build_report upper a_moment_later p
        \<and> build_report upper nine_oclock p \<noteq> build_report upper a_second_later p)
   \<and> (\<exists>p. NmapXMLParser ''scan.xml'' (Inr (odd_port_doc [(''protocol'', ''tcp'')] ''open'')) = Inr p
        \<and> build_report upper nine_oclock p = Inl (ValueError ''unknown'')
        \<and> build_report upper nine_oclock p = build_report upper a_second_later p)
   \<and> strftime nine_oclock = ''2026-11-04 09:00:00''
   \<and> strftime a_moment_later = ''2026-11-04 09:00:00''
   \<and> strftime a_second_later = ''2026-11-04 09:00:01''"
    by blast
qed

text \<open>
  C10. Rendering is not total over parsed models: a document whose one port has no
  \<open>portid\<close> attribute and is open, filtered or closed parses, and rendering the result
  raises \<open>ValueError\<close> on the stored \<open>unknown\<close>; likewise for a port id that is present
  and not a number.
\<close>

theorem rendering_not_total:
  "(\<exists>p. NmapXMLParser file (Inr (odd_port_doc [(''protocol'', ''tcp'')] ''open'')) = Inr p
        \<and> build_report upper now p = Inl (ValueError ''unknown''))
   \<and> (\<exists>p. NmapXMLParser file (Inr (odd_port_doc [(''protocol'', ''tcp'')] ''filtered'')) = Inr p
        \<and> build_report upper now p = Inl (ValueError ''unknown''))
   \<and> (\<exists>p. NmapXMLParser file (Inr (odd_port_doc [(''protocol'', ''tcp'')] ''closed'')) = Inr p
        \<and> build_report upper now p = Inl (ValueError ''unknown''))
   \<and> (\<exists>p. NmapXMLParser file (Inr (odd_port_doc [(''portid'', ''http'')] ''open'')) = Inr p
        \<and> build_report upper now p = Inl (ValueError ''http''))"
proof (intro conjI)
  show "\<exists>p. NmapXMLParser file (Inr (odd_port_doc [(''protocol'', ''tcp'')] ''open'')) = Inr p
        \<and> build_report upper now p = Inl (ValueError ''unknown'')"
    by (rule both_results) code_simp+
  show "\<exists>p. NmapXMLParser file (Inr (odd_port_doc [(''protocol'', ''tcp'')] ''filtered'')) = Inr p
        \<and> build_report upper now p = Inl (ValueError ''unknown'')"
    by (rule both_results) code_simp+
  show "\<exists>p. NmapXMLParser file (Inr (odd_port_doc [(''protocol'', ''tcp'')] ''closed'')) = Inr p
        \<and> build_report upper now p = Inl (ValueError ''unknown'')"
    by (rule both_results) code_simp+
  show "\<exists>p. NmapXMLParser file (Inr (odd_port_doc [(''portid'', ''http'')] ''open'')) = Inr p
        \<and> build_report upper now p = Inl (ValueError ''http'')"
    by (rule both_results) code_simp+
qed

subsection \<open>Writing the report\<close>

lemma write_file_fails:
  assumes "disk fs path \<noteq> Accepts" and "encodable fs text"
  shows "snd (write_file path text fs) = Some (OSError path)"
    and "q \<noteq> path \<Longrightarrow> content (fst (write_file path text fs)) q = content fs q"
    and "content (fst (write_file path text fs)) path = content fs path
         \<or> (\<exists>n. content (fst (write_file path text fs)) path = Some (take n text))"
  using assms by (cases "disk fs path"; simp add: write_file_def; blast)+

text \<open>
  C9. The claim: a failed write surfaces as an I/O failure distinct from a malformed
  document, and the report text stays available. In the export dialog a failed write and
  a malformed document both surface as a plain \<open>Exception\<close> with the message prefix
  \<open>XML Parsing Error: \<close>; a failed \<open>generate_report\<close> returns only the exception, and
  the destination holds the first forty characters of the report.
\<close>

theorem export_failure_counterexample:
  "\<forall>upper.
     snd (export_parsed_xml upper nine_oclock ''scan.xml'' (Inr empty_doc) ''/srv/report.txt''
            failing_fs)
       = Inl (Exception ''XML Parsing Error: '' (OSError ''/srv/report.txt''))
   \<and> snd (export_parsed_xml upper nine_oclock ''scan.xml'' (Inl ParseError) ''/tmp/report.txt''
            failing_fs)
       = Inl (Exception ''XML Parsing Error: '' ParseError)
   \<and> \<not> isl (build_report upper nine_oclock empty_scan)
   \<and> snd (generate_report upper nine_oclock empty_scan (Some ''/srv/report.txt'') failing_fs)
       = Inl (OSError ''/srv/report.txt'')
   \<and> content (fst (generate_report upper nine_oclock empty_scan (Some ''/srv/report.txt'')
                      failing_fs)) ''/srv/report.txt''
       = Some (replicate 40 CHR ''='')"
proof
  fix upper :: "string \<Rightarrow> string"
  show "snd (export_parsed_xml upper nine_oclock ''scan.xml'' (Inr empty_doc) ''/srv/report.txt''
            failing_fs)
       = Inl (Exception ''XML Parsing Error: '' (OSError ''/srv/report.txt''))
   \<and> snd (export_parsed_xml upper nine_oclock ''scan.xml'' (Inl ParseError) ''/tmp/report.txt''
            failing_fs)
       = Inl (Exception ''XML Parsing Error: '' ParseError)
   \<and> \<not> isl (build_report upper nine_oclock empty_scan)
   \<and> snd (generate_report upper nine_oclock empty_scan (Some ''/srv/report.txt'') failing_fs)
       = Inl (OSError ''/srv/report.txt'')
   \<and> content (fst (generate_report upper nine_oclock empty_scan (Some ''/srv/report.txt'')
                      failing_fs)) ''/srv/report.txt''
       = Some (replicate 40 CHR ''='')"
    by code_simp
qed

text \<open>
  C9, amended. When the report renders and writing it to the destination fails (the file
  cannot be opened, or the disk fails during the write), \<open>generate_report\<close> raises
  \<open>OSError\<close>, which is not \<open>ParseError\<close>, and returns no text; the destination is left as
  it was or holds a part of the report, and no other file changes. The parser object is
  as before: a later call without a destination returns the report, the same text but
  for the clock reading in the \<open>Generated:\<close> line. \<open>_export_parsed_xml\<close> raises a plain
  \<open>Exception\<close> with the prefix \<open>XML Parsing Error: \<close> both for the failed write and for a
  malformed document.
\<close>

theorem write_failure:
  assumes "build_report upper t1 p = Inr report" and "path \<noteq> []"
    and "disk fs path \<noteq> Accepts" and "encodable fs report"
  shows "snd (generate_report upper t1 p (Some path) fs) = Inl (OSError path)
       \<and> OSError path \<noteq> ParseError
       \<and> (content (fst (generate_report upper t1 p (Some path) fs)) path = content fs path
           \<or> (\<exists>n. content (fst (generate_report upper t1 p (Some path) fs)) path
                    = Some (take n report)))
       \<and> (\<forall>q. q \<noteq> path \<longrightarrow>
             content (fst (generate_report upper t1 p (Some path) fs)) q = content fs q)
       \<and> (\<exists>rest. report = report_banner @ strftime t1 @ rest
             \<and> (\<forall>t2 fs2. generate_report upper t2 p None fs2
                            = (fs2, Inr (report_banner @ strftime t2 @ rest))))
       \<and> snd (export_parsed_xml upper t1 file (Inl ParseError) path fs)
           = Inl (Exception ''XML Parsing Error: '' ParseError)
       \<and> (NmapXMLParser file parsed = Inr p \<longrightarrow>
            snd (export_parsed_xml upper t1 file parsed path fs)
              = Inl (Exception ''XML Parsing Error: '' (OSError path)))"
proof -
  note w = write_file_fails [OF assms(3) assms(4)]
  obtain fs1 where fs1: "write_file path report fs = (fs1, Some (OSError path))"
    using w(1) by (cases "write_file path report fs") auto
  have g: "generate_report upper t1 p (Some path) fs = (fs1, Inl (OSError path))"
    using assms(1,2) fs1 by (simp add: generate_report_def)
  have c1: "content fs1 path = content fs path \<or> (\<exists>n. content fs1 path = Some (take n report))"
    using w(3) fs1 by simp
  have c2: "\<forall>q. q \<noteq> path \<longrightarrow> content fs1 q = content fs q"
    using w(2) fs1 by simp
  from assms(1) obtain host_lines where "format_hosts upper (hosts p) 1 = Inr host_lines"
    by (auto simp: build_report_def split: sum.splits)
  from build_report_shape [OF this] obtain rest where
    r: "\<And>now. build_report upper now p =
           Inr (report_banner @ strftime now @ CHR 0x0A # ''XML File: '' @ xml_file p @ rest)"
    by blast
  have "report = report_banner @ strftime t1 @ (CHR 0x0A # ''XML File: '' @ xml_file p @ rest)"
    using r [of t1] assms(1) by simp
  moreover have "\<forall>t2 fs2. generate_report upper t2 p None fs2
      = (fs2, Inr (report_banner @ strftime t2 @ (CHR 0x0A # ''XML File: '' @ xml_file p @ rest)))"
    by (simp add: generate_report_def r)
  ultimately have again: "\<exists>rest. report = report_banner @ strftime t1 @ rest
             \<and> (\<forall>t2 fs2. generate_report upper t2 p None fs2
                            = (fs2, Inr (report_banner @ strftime t2 @ rest)))"
    by blast
  have m: "snd (export_parsed_xml upper t1 file (Inl ParseError) path fs)
           = Inl (Exception ''XML Parsing Error: '' ParseError)"
    by (simp add: export_parsed_xml_def NmapXMLParser_def)
  have x: "snd (export_parsed_xml upper t1 file parsed path fs)
              = Inl (Exception ''XML Parsing Error: '' (OSError path))"
    if "NmapXMLParser file parsed = Inr p"
    using that assms(1) fs1 by (simp add: export_parsed_xml_def generate_report_def)
  from g c1 c2 again m x show ?thesis by simp
qed

theorem write_failure_witness:
  "\<forall>upper.
     (\<exists>report. build_report upper nine_oclock empty_scan = Inr report
        \<and> encodable failing_fs report
        \<and> (\<exists>rest. report = report_banner @ strftime nine_oclock @ rest
              \<and> (\<forall>t2 fs2. generate_report upper t2 empty_scan None fs2
                             = (fs2, Inr (report_banner @ strftime t2 @ rest)))))
   \<and> ''/srv/report.txt'' \<noteq> []
   \<and> disk failing_fs ''/srv/report.txt'' \<noteq> Accepts
   \<and> snd (generate_report upper nine_oclock empty_scan (Some ''/srv/report.txt'') failing_fs)
       = Inl (OSError ''/srv/report.txt'')
   \<and> NmapXMLParser ''scan.xml'' (Inr empty_doc) = Inr empty_scan
   \<and> snd (export_parsed_xml upper nine_oclock ''scan.xml'' (Inr empty_doc) ''/srv/report.txt''
            failing_fs)
       = Inl (Exception ''XML Parsing Error: '' (OSError ''/srv/report.txt''))"
proof
  fix upper :: "string \<Rightarrow> string"
  have "\<not> isl (build_report upper nine_oclock empty_scan)"
    by code_simp
  then obtain report where r: "build_report upper nine_oclock empty_scan = Inr report"
    by (cases "build_report upper nine_oclock empty_scan") auto
  have n: "''/srv/report.txt'' \<noteq> []"
    by simp
  have d: "disk failing_fs ''/srv/report.txt'' \<noteq> Accepts"
    by (simp add: failing_fs_def)
  have e: "encodable failing_fs report"
    by (simp add: failing_fs_def)
  have p: "NmapXMLParser ''scan.xml'' (Inr empty_doc) = Inr empty_scan"
    by code_simp
  from write_failure [OF r n d e, of "''scan.xml''" "Inr empty_doc"] r n d e p
  show "(\<exists>report. build_report upper nine_oclock empty_scan = Inr report
        \<and> encodable failing_fs report
        \<and> (\<exists>rest. report = report_banner @ strftime nine_oclock @ rest
              \<and> (\<forall>t2 fs2. generate_report upper t2 empty_scan None fs2
                             = (fs2, Inr (report_banner @ strftime t2 @ rest)))))
   \<and> ''/srv/report.txt'' \<noteq> []
   \<and> disk failing_fs ''/srv/report.txt'' \<noteq> Accepts
   \<and> snd (generate_report upper nine_oclock empty_scan (Some ''/srv/report.txt'') failing_fs)
       = Inl (OSError ''/srv/report.txt'')
   \<and> NmapXMLParser ''scan.xml'' (Inr empty_doc) = Inr empty_scan
   \<and> snd (export_parsed_xml upper nine_oclock ''scan.xml'' (Inr empty_doc) ''/srv/report.txt''
            failing_fs)
       = Inl (Exception ''XML Parsing Error: '' (OSError ''/srv/report.txt''))"
    by blast
qed

end
